theory Spec2Isabelle
  imports Complex_Main "HOL-Library.AList" "HOL-Library.Sublist"
begin

section \<open>Python values\<close>

text \<open>
  The agent service is Python. Its strings are modelled as \<open>string\<close>, one \<open>char\<close> per code
  point below 256; its unbounded integers as \<open>int\<close>; its dictionaries, which keep insertion
  order, as association lists. An exception is a value: its class name and the text
  \<open>str(e)\<close> gives.
\<close>

datatype exn = Exn (exn_class: string) (exn_str: string)

text \<open>
  A Python float is a finite number, an infinity or NaN. Finite values are carried as exact
  rationals: the rounding of finite results and the sign of zero are not tracked.
\<close>

datatype pyfloat = Fin rat | PInf | NInf | NaN

datatype json =
    JNull
  | JBool bool
  | JInt int
  | JFloat pyfloat
  | JStr string
  | JArr "json list"
  | JObj "(string \<times> json) list"

text \<open>
  The parts of the Python runtime that the repository calls and that are not modelled here
  are taken as a parameter: the JSON decoder \<open>json.loads\<close> (the decoded value, or the
  exception it raises), the text \<open>repr\<close> gives a finite float, \<open>float(s)\<close> on a string
  (\<open>None\<close> where it raises ValueError), and the TypeError that a call \<open>f(**v)\<close> raises when
  \<open>v\<close> cannot be bound (its text names the callable).
\<close>

record py_runtime =
  json_loads :: "string \<Rightarrow> exn + json"
  float_repr :: "rat \<Rightarrow> string"
  float_of_str :: "string \<Rightarrow> pyfloat option"
  call_error :: "json \<Rightarrow> exn"

subsection \<open>Text of values\<close>

definition hex_digit :: "nat \<Rightarrow> char" where
  "hex_digit n = ''0123456789abcdef'' ! (n mod 16)"

definition hex2 :: "nat \<Rightarrow> string" where
  "hex2 n = [hex_digit (n div 16), hex_digit n]"

fun show_nat :: "nat \<Rightarrow> string" where
  "show_nat n = (if n < 10 then [hex_digit n] else show_nat (n div 10) @ [hex_digit (n mod 10)])"

definition show_int :: "int \<Rightarrow> string" where
  "show_int i = (if i < 0 then CHR ''-'' # show_nat (nat (- i)) else show_nat (nat i))"

fun join :: "string \<Rightarrow> string list \<Rightarrow> string" where
  "join sep [] = []"
| "join sep [x] = x"
| "join sep (x # y # ys) = x @ sep @ join sep (y # ys)"

text \<open>
  \<open>json.dumps\<close> with its defaults (\<open>ensure_ascii=True\<close>, \<open>allow_nan=True\<close>, separators
  \<open>", "\<close> and \<open>": "\<close>): a backslash, a double quote and every character outside
  \<open>' '..'~'\<close> is escaped.
\<close>

definition json_escape_char :: "char \<Rightarrow> string" where
  "json_escape_char c =
     (let n = (of_char c :: nat) in
      if n = 0x5C then [CHR 0x5C, CHR 0x5C]
      else if n = 0x22 then [CHR 0x5C, CHR 0x22]
      else if n = 0x08 then [CHR 0x5C, CHR ''b'']
      else if n = 0x0C then [CHR 0x5C, CHR ''f'']
      else if n = 0x0A then [CHR 0x5C, CHR ''n'']
      else if n = 0x0D then [CHR 0x5C, CHR ''r'']
      else if n = 0x09 then [CHR 0x5C, CHR ''t'']
      else if 0x20 \<le> n \<and> n \<le> 0x7E then [c]
      else [CHR 0x5C, CHR ''u'', CHR ''0'', CHR ''0''] @ hex2 n)"

definition json_quote :: "string \<Rightarrow> string" where
  "json_quote s = [CHR 0x22] @ concat (map json_escape_char s) @ [CHR 0x22]"

definition json_float :: "py_runtime \<Rightarrow> pyfloat \<Rightarrow> string" where
  "json_float rt f =
     (case f of Fin r \<Rightarrow> float_repr rt r | PInf \<Rightarrow> ''Infinity'' | NInf \<Rightarrow> ''-Infinity''
      | NaN \<Rightarrow> ''NaN'')"

fun json_dumps :: "py_runtime \<Rightarrow> json \<Rightarrow> string" where
  "json_dumps rt JNull = ''null''"
| "json_dumps rt (JBool b) = (if b then ''true'' else ''false'')"
| "json_dumps rt (JInt i) = show_int i"
| "json_dumps rt (JFloat f) = json_float rt f"
| "json_dumps rt (JStr s) = json_quote s"
| "json_dumps rt (JArr xs) = ''['' @ join '', '' (map (json_dumps rt) xs) @ '']''"
| "json_dumps rt (JObj kvs) =
     ''{'' @ join '', '' (map (\<lambda>kv. json_quote (fst kv) @ '': '' @ json_dumps rt (snd kv)) kvs)
       @ ''}''"

text \<open>
  \<open>repr\<close> of a string: single quotes, unless the string holds a single quote and no double
  quote; the quote and the backslash are escaped, so are tab, newline and carriage return,
  and every character that is not printable is written \<open>\xhh\<close>.
\<close>

definition py_printable :: "char \<Rightarrow> bool" where
  "py_printable c =
     (let n = (of_char c :: nat) in (0x20 \<le> n \<and> n < 0x7F) \<or> (0xA1 \<le> n \<and> n \<noteq> 0xAD))"

definition repr_char :: "char \<Rightarrow> char \<Rightarrow> string" where
  "repr_char q c =
     (let n = (of_char c :: nat) in
      if c = q \<or> n = 0x5C then [CHR 0x5C, c]
      else if n = 0x09 then [CHR 0x5C, CHR ''t'']
      else if n = 0x0A then [CHR 0x5C, CHR ''n'']
      else if n = 0x0D then [CHR 0x5C, CHR ''r'']
      else if py_printable c then [c]
      else [CHR 0x5C, CHR ''x''] @ hex2 n)"

definition str_repr :: "string \<Rightarrow> string" where
  "str_repr s =
     (let q = (if CHR 0x27 \<in> set s \<and> CHR 0x22 \<notin> set s then CHR 0x22 else CHR 0x27)
      in [q] @ concat (map (repr_char q) s) @ [q])"

definition float_str :: "py_runtime \<Rightarrow> pyfloat \<Rightarrow> string" where
  "float_str rt f =
     (case f of Fin r \<Rightarrow> float_repr rt r | PInf \<Rightarrow> ''inf'' | NInf \<Rightarrow> ''-inf'' | NaN \<Rightarrow> ''nan'')"

fun py_repr :: "py_runtime \<Rightarrow> json \<Rightarrow> string" where
  "py_repr rt JNull = ''None''"
| "py_repr rt (JBool b) = (if b then ''True'' else ''False'')"
| "py_repr rt (JInt i) = show_int i"
| "py_repr rt (JFloat f) = float_str rt f"
| "py_repr rt (JStr s) = str_repr s"
| "py_repr rt (JArr xs) = ''['' @ join '', '' (map (py_repr rt) xs) @ '']''"
| "py_repr rt (JObj kvs) =
     ''{'' @ join '', '' (map (\<lambda>kv. str_repr (fst kv) @ '': '' @ py_repr rt (snd kv)) kvs)
       @ ''}''"

text \<open>\<open>str(v)\<close>, which an f-string applies: a string is itself, anything else its repr.\<close>

definition py_str :: "py_runtime \<Rightarrow> json \<Rightarrow> string" where
  "py_str rt v = (case v of JStr s \<Rightarrow> s | _ \<Rightarrow> py_repr rt v)"

definition str_opt :: "string option \<Rightarrow> string" where
  "str_opt v = (case v of None \<Rightarrow> ''None'' | Some s \<Rightarrow> s)"

text \<open>Truth value of a Python object, as \<open>if v\<close>, \<open>v or d\<close> and \<open>not v\<close> test it.\<close>

definition py_truthy :: "json \<Rightarrow> bool" where
  "py_truthy v =
     (case v of JNull \<Rightarrow> False | JBool b \<Rightarrow> b | JInt i \<Rightarrow> i \<noteq> 0
      | JFloat f \<Rightarrow> f \<noteq> Fin 0 | JStr s \<Rightarrow> s \<noteq> [] | JArr xs \<Rightarrow> xs \<noteq> []
      | JObj kvs \<Rightarrow> kvs \<noteq> [])"

text \<open>\<open>str.strip()\<close> and \<open>str.lower()\<close> on code points below 256.\<close>

definition py_isspace :: "char \<Rightarrow> bool" where
  "py_isspace c =
     (let n = (of_char c :: nat) in
      (0x09 \<le> n \<and> n \<le> 0x0D) \<or> (0x1C \<le> n \<and> n \<le> 0x20) \<or> n = 0x85 \<or> n = 0xA0)"

definition py_strip :: "string \<Rightarrow> string" where
  "py_strip s = rev (dropWhile py_isspace (rev (dropWhile py_isspace s)))"

definition py_lower_char :: "char \<Rightarrow> char" where
  "py_lower_char c =
     (let n = (of_char c :: nat) in
      if (0x41 \<le> n \<and> n \<le> 0x5A) \<or> (0xC0 \<le> n \<and> n \<le> 0xDE \<and> n \<noteq> 0xD7)
      then char_of (n + 32) else c)"

definition py_lower :: "string \<Rightarrow> string" where
  "py_lower s = map py_lower_char s"

section \<open>Tool definitions and the provider schema adapter\<close>

text \<open>
  Modelled from the spec: the module \<open>enums\<close> that declares \<open>InputType\<close> is not among the
  source files. Its members are the seven kinds of the spec's ToolParameter, under the names
  \<open>llm_tool_converters/openai.py\<close> uses.
\<close>

datatype InputType = STRING | INTEGER | FLOAT | BOOLEAN | LIST | DICT | ANY

record ToolInput =
  ti_name :: string
  ti_type :: InputType
  ti_description :: string
  ti_required :: bool

record Tool =
  tool_name :: string
  tool_description :: string
  tool_inputs :: "ToolInput list"

type_synonym kwargs = "(string \<times> json) list"

text \<open>
  A \<open>BaseTool\<close> is a tool that can be called with keyword arguments: it returns a string or
  raises. The tools of the repository have no state and no effect.
\<close>

record BaseTool = Tool +
  tool_call :: "py_runtime \<Rightarrow> kwargs \<Rightarrow> exn + string"

record OpenAIProperty =
  p_type :: string
  p_description :: string
  p_enum :: "string list option"
  p_additionalProperties :: "bool option"
  p_properties :: "(string \<times> json) list option"
  p_items :: "(string \<times> json) list option"

record OpenAIParameters =
  params_type :: string
  params_properties :: "(string \<times> OpenAIProperty) list"
  params_required :: "string list"
  params_additionalProperties :: bool

record OpenAIFunctionDef =
  def_name :: string
  def_description :: string
  def_parameters :: OpenAIParameters

record OpenAIFunction =
  fn_type :: string
  fn_function :: OpenAIFunctionDef
  fn_name :: string
  fn_description :: string
  fn_parameters :: OpenAIParameters
  fn_strict :: bool

fun input_type_to_openai_type :: "InputType \<Rightarrow> string" where
  "input_type_to_openai_type STRING = ''string''"
| "input_type_to_openai_type INTEGER = ''integer''"
| "input_type_to_openai_type FLOAT = ''number''"
| "input_type_to_openai_type BOOLEAN = ''boolean''"
| "input_type_to_openai_type LIST = ''array''"
| "input_type_to_openai_type DICT = ''object''"
| "input_type_to_openai_type ANY = ''string''"

text \<open>The body of the loop over \<open>tool.inputs\<close>: the schema of one parameter.\<close>

definition property_data :: "ToolInput \<Rightarrow> OpenAIProperty" where
  "property_data tool_input =
     (let openai_type = input_type_to_openai_type (ti_type tool_input);
          pd = \<lparr>p_type = openai_type, p_description = ti_description tool_input,
                p_enum = None, p_additionalProperties = None, p_properties = None,
                p_items = None\<rparr>
      in if openai_type = ''object''
         then pd\<lparr>p_additionalProperties := Some False, p_properties := Some []\<rparr>
         else if openai_type = ''array''
         then pd\<lparr>p_items := Some [(''type'', JStr ''string'')]\<rparr>
         else pd)"

text \<open>
  \<open>properties[tool_input.name] = property_data\<close>, for each input in turn: a key that is
  already there keeps its place and takes the new value.
\<close>

definition tool_properties :: "ToolInput list \<Rightarrow> (string \<times> OpenAIProperty) list" where
  "tool_properties inputs =
     fold (\<lambda>tool_input properties.
             AList.update (ti_name tool_input) (property_data tool_input) properties)
       inputs []"

definition convert_tool :: "'a Tool_scheme \<Rightarrow> OpenAIFunction" where
  "convert_tool tool =
     (let properties = tool_properties (tool_inputs tool);
          required_fields = map fst properties;
          parameters = \<lparr>params_type = ''object'', params_properties = properties,
                        params_required = required_fields,
                        params_additionalProperties = False\<rparr>
      in \<lparr>fn_type = ''function'',
          fn_function = \<lparr>def_name = tool_name tool, def_description = tool_description tool,
                          def_parameters = parameters\<rparr>,
          fn_name = tool_name tool,
          fn_description = tool_description tool,
          fn_parameters = parameters,
          fn_strict = True\<rparr>)"

definition convert_tools_to_openai :: "'a Tool_scheme list \<Rightarrow> OpenAIFunction list" where
  "convert_tools_to_openai tools = map convert_tool tools"

section \<open>The tools\<close>

definition mk_input :: "string \<Rightarrow> InputType \<Rightarrow> string \<Rightarrow> bool \<Rightarrow> ToolInput" where
  "mk_input n t d r = \<lparr>ti_name = n, ti_type = t, ti_description = d, ti_required = r\<rparr>"

text \<open>
  Four tools are placeholders: each returns \<open>json.dumps({"input": kwargs, "note": ...})\<close>.
\<close>

definition stub_call :: "string \<Rightarrow> py_runtime \<Rightarrow> kwargs \<Rightarrow> exn + string" where
  "stub_call note rt kw = Inr (json_dumps rt (JObj [(''input'', JObj kw), (''note'', JStr note)]))"

definition calculate_pension_tool :: BaseTool where
  "calculate_pension_tool =
     \<lparr>tool_name = ''calculate_pension'',
      tool_description =
        ''Calculate pension benefits based on salary, years of service, and retirement age'',
      tool_inputs =
        [mk_input ''current_salary'' FLOAT ''Current annual salary in USD'' True,
         mk_input ''years_of_service'' INTEGER
           ''Number of years of service with the company'' True,
         mk_input ''retirement_age'' INTEGER ''Planned retirement age'' True,
         mk_input ''pension_plan_type'' STRING
           ''Type of pension plan (defined_benefit, defined_contribution, hybrid)'' False],
      tool_call =
        stub_call ''Stub calculate_pension implementation. Replace with real logic.''\<rparr>"

definition health_insurance_lookup_tool :: BaseTool where
  "health_insurance_lookup_tool =
     \<lparr>tool_name = ''health_insurance_lookup'',
      tool_description = ''Look up health insurance plan details, coverage, and costs'',
      tool_inputs =
        [mk_input ''plan_id'' STRING ''Health insurance plan identifier'' True,
         mk_input ''employee_tier'' STRING
           ''Employee tier (individual, family, employee_spouse, employee_children)'' True,
         mk_input ''state'' STRING ''State where the employee is located'' False],
      tool_call =
        stub_call ''Stub health_insurance_lookup implementation. Replace with real logic.''\<rparr>"

definition pto_balance_tool :: BaseTool where
  "pto_balance_tool =
     \<lparr>tool_name = ''pto_balance_lookup'',
      tool_description = ''Check paid time off balance and accrual information'',
      tool_inputs =
        [mk_input ''employee_id'' STRING ''Employee identification number'' True,
         mk_input ''balance_type'' STRING
           ''Type of PTO balance to check (vacation, sick, personal, total)'' False],
      tool_call =
        stub_call ''Stub pto_balance_lookup implementation. Replace with real logic.''\<rparr>"

definition benefits_enrollment_tool :: BaseTool where
  "benefits_enrollment_tool =
     \<lparr>tool_name = ''benefits_enrollment'',
      tool_description =
        ''Help with benefits enrollment during open enrollment or life events'',
      tool_inputs =
        [mk_input ''employee_id'' STRING ''Employee identification number'' True,
         mk_input ''enrollment_type'' STRING
           ''Type of enrollment (open_enrollment, new_hire, life_event)'' True,
         mk_input ''benefits_selections'' DICT
           ''Dictionary of benefit selections and choices'' True],
      tool_call =
        stub_call ''Stub benefits_enrollment implementation. Replace with real logic.''\<rparr>"

subsection \<open>The FSA/HSA calculator\<close>

text \<open>
  Comparison and arithmetic of floats: every comparison with NaN is false. Finite sums,
  products and roundings are taken on the exact rationals, so a finite result can differ
  from the code's binary one in its last digit; the non-finite cases are as in the code.
\<close>

fun flt :: "pyfloat \<Rightarrow> pyfloat \<Rightarrow> bool" where
  "flt NaN b = False"
| "flt a NaN = False"
| "flt (Fin a) (Fin b) = (a < b)"
| "flt (Fin a) PInf = True"
| "flt (Fin a) NInf = False"
| "flt PInf b = False"
| "flt NInf NInf = False"
| "flt NInf b = True"

fun fsgn :: "pyfloat \<Rightarrow> int" where
  "fsgn (Fin r) = (if 0 < r then 1 else if r < 0 then - 1 else 0)"
| "fsgn PInf = 1"
| "fsgn NInf = - 1"
| "fsgn NaN = 0"

fun fmul :: "pyfloat \<Rightarrow> pyfloat \<Rightarrow> pyfloat" where
  "fmul NaN b = NaN"
| "fmul a NaN = NaN"
| "fmul (Fin a) (Fin b) = Fin (a * b)"
| "fmul a b =
     (let s = fsgn a * fsgn b in if s = 0 then NaN else if 0 < s then PInf else NInf)"

fun fsub :: "pyfloat \<Rightarrow> pyfloat \<Rightarrow> pyfloat" where
  "fsub NaN b = NaN"
| "fsub a NaN = NaN"
| "fsub (Fin a) (Fin b) = Fin (a - b)"
| "fsub PInf PInf = NaN"
| "fsub NInf NInf = NaN"
| "fsub PInf b = PInf"
| "fsub NInf b = NInf"
| "fsub (Fin a) PInf = NInf"
| "fsub (Fin a) NInf = PInf"

text \<open>A number is an int or a float: \<open>max(x, 0)\<close> can return the int.\<close>

datatype pynum = PyInt int | PyFloat pyfloat

fun to_float :: "pynum \<Rightarrow> pyfloat" where
  "to_float (PyInt i) = Fin (of_int i)"
| "to_float (PyFloat f) = f"

definition num_lt :: "pynum \<Rightarrow> pynum \<Rightarrow> bool" where
  "num_lt a b = flt (to_float a) (to_float b)"

text \<open>
  \<open>min(a, b)\<close> and \<open>max(a, b)\<close> keep the first argument unless the second is strictly
  smaller (greater).
\<close>

definition py_min :: "pynum \<Rightarrow> pynum \<Rightarrow> pynum" where
  "py_min a b = (if num_lt b a then b else a)"

definition py_max :: "pynum \<Rightarrow> pynum \<Rightarrow> pynum" where
  "py_max a b = (if num_lt a b then b else a)"

definition round_half_even :: "rat \<Rightarrow> int" where
  "round_half_even r =
     (let f = \<lfloor>r\<rfloor>; d = r - of_int f
      in if d < 1 / 2 then f else if 1 / 2 < d then f + 1 else if even f then f else f + 1)"

fun py_round2 :: "pynum \<Rightarrow> pynum" where
  "py_round2 (PyInt i) = PyInt i"
| "py_round2 (PyFloat (Fin r)) = PyFloat (Fin (of_int (round_half_even (r * 100)) / 100))"
| "py_round2 (PyFloat f) = PyFloat f"

fun json_of_num :: "pynum \<Rightarrow> json" where
  "json_of_num (PyInt i) = JInt i"
| "json_of_num (PyFloat f) = JFloat f"

definition py_type_name :: "json \<Rightarrow> string" where
  "py_type_name v =
     (case v of JNull \<Rightarrow> ''NoneType'' | JBool b \<Rightarrow> ''bool'' | JInt i \<Rightarrow> ''int''
      | JFloat f \<Rightarrow> ''float'' | JStr s \<Rightarrow> ''str'' | JArr xs \<Rightarrow> ''list'' | JObj kvs \<Rightarrow> ''dict'')"

text \<open>
  \<open>float(v)\<close>. An int converts unless it rounds to \<open>2 ^ 1024\<close> or beyond, where OverflowError
  is raised; a string is parsed; \<open>None\<close>, a list and a dict raise TypeError. The messages are
  those of CPython 3.10 and later.
\<close>

definition py_float :: "py_runtime \<Rightarrow> json \<Rightarrow> exn + pyfloat" where
  "py_float rt v =
     (case v of
        JInt i \<Rightarrow>
          if 2 ^ 1024 - 2 ^ 970 \<le> \<bar>i\<bar>
          then Inl (Exn ''OverflowError'' ''int too large to convert to float'')
          else Inr (Fin (of_int i))
      | JBool b \<Rightarrow> Inr (Fin (if b then 1 else 0))
      | JFloat f \<Rightarrow> Inr f
      | JStr s \<Rightarrow>
          (case float_of_str rt s of
             None \<Rightarrow> Inl (Exn ''ValueError'' (''could not convert string to float: '' @ str_repr s))
           | Some f \<Rightarrow> Inr f)
      | _ \<Rightarrow>
          Inl (Exn ''TypeError''
                (''float() argument must be a string or a real number, not '' @
                 [CHR 0x27] @ py_type_name v @ [CHR 0x27])))"

definition kwargs_get :: "kwargs \<Rightarrow> string \<Rightarrow> json \<Rightarrow> json" where
  "kwargs_get kw k d = (case map_of kw k of None \<Rightarrow> d | Some v \<Rightarrow> v)"

text \<open>
  The \<open>try\<close> block and the guardrail: \<open>expenses\<close> as the branches below read it. TypeError and
  ValueError are caught, any other exception leaves the call.
\<close>

definition fsa_expenses :: "py_runtime \<Rightarrow> kwargs \<Rightarrow> exn + pyfloat" where
  "fsa_expenses rt kw =
     (case py_float rt (kwargs_get kw ''expected_medical_expenses'' (JInt 0)) of
        Inl e \<Rightarrow>
          if exn_class e = ''TypeError'' \<or> exn_class e = ''ValueError'' then Inr (Fin 0)
          else Inl e
      | Inr expenses \<Rightarrow> Inr (if flt expenses (Fin 0) then Fin 0 else expenses))"

definition target_ratio :: pyfloat where "target_ratio = Fin (4 / 5)"
definition FSA_CAP :: pyfloat where "FSA_CAP = Fin 3150"
definition HSA_CAP_INDIVIDUAL :: pyfloat where "HSA_CAP_INDIVIDUAL = Fin 4150"

text \<open>The four branches on \<open>account_type\<close>: the recommendations and their rationale.\<close>

definition fsa_recommend ::
    "pyfloat \<Rightarrow> string \<Rightarrow> (string \<times> pynum) list \<times> (string \<times> string) list" where
  "fsa_recommend expenses account_type =
     (if account_type = ''fsa'' then
        (let rec = py_min (PyFloat (fmul expenses target_ratio)) (PyFloat FSA_CAP)
         in ([(''fsa'', py_round2 rec)],
             [(''fsa'', ''Recommend ~80% of expected expenses up to the FSA cap to reduce forfeiture risk.'')]))
      else if account_type = ''hsa'' then
        (let rec = py_min (PyFloat (fmul expenses target_ratio)) (PyFloat HSA_CAP_INDIVIDUAL)
         in ([(''hsa'', py_round2 rec)],
             [(''hsa'', ''Recommend ~80% of expected expenses up to the HSA cap. Consider catch-up if eligible.'')]))
      else if account_type = ''both'' then
        (let hsa_target = py_min (PyFloat (fmul expenses (Fin (1 / 2)))) (PyFloat HSA_CAP_INDIVIDUAL);
             remaining = py_max (PyFloat (fsub (fmul expenses target_ratio) (to_float hsa_target)))
                           (PyInt 0);
             fsa_target = py_min remaining (PyFloat FSA_CAP)
         in ([(''hsa'', py_round2 hsa_target), (''fsa'', py_round2 fsa_target)],
             [(''hsa'', ''Prioritize HSA for tax efficiency and rollover; allocate ~50% of target there first.''),
              (''fsa'', ''Allocate remaining target to FSA up to the cap; avoid exceeding likely expenses.'')]))
      else
        (let neutral = py_min (PyFloat (fmul expenses target_ratio))
                         (py_max (PyFloat FSA_CAP) (PyFloat HSA_CAP_INDIVIDUAL))
         in ([(''suggested_contribution'', py_round2 neutral)],
             [(''note'', ''Unknown account_type; suggested a single neutral target based on expected expenses.'')])))"

definition fsa_hsa_result :: "py_runtime \<Rightarrow> kwargs \<Rightarrow> exn + json" where
  "fsa_hsa_result rt kw =
     (case fsa_expenses rt kw of
        Inl e \<Rightarrow> Inl e
      | Inr expenses \<Rightarrow>
          (let account_type = py_lower (py_strip (py_str rt (kwargs_get kw ''account_type'' (JStr []))));
               current_age = kwargs_get kw ''current_age'' JNull;
               retirement_age = kwargs_get kw ''retirement_age'' JNull;
               (recommendations, rationale) = fsa_recommend expenses account_type
           in Inr (JObj
                [(''input'', JObj [(''expected_medical_expenses'', JFloat expenses),
                                   (''account_type'', JStr account_type),
                                   (''current_age'', current_age),
                                   (''retirement_age'', retirement_age)]),
                 (''recommendations'', JObj (map (\<lambda>kv. (fst kv, json_of_num (snd kv))) recommendations)),
                 (''assumptions'', JObj [(''target_ratio'', JFloat target_ratio),
                                         (''fsa_cap'', JFloat FSA_CAP),
                                         (''hsa_cap_individual'', JFloat HSA_CAP_INDIVIDUAL)]),
                 (''rationale'', JObj (map (\<lambda>kv. (fst kv, JStr (snd kv))) rationale)),
                 (''disclaimer'', JStr ''This is a non-binding illustrative calculation. Consult plan documents and a tax advisor.'')])))"

definition fsa_hsa_call :: "py_runtime \<Rightarrow> kwargs \<Rightarrow> exn + string" where
  "fsa_hsa_call rt kw =
     (case fsa_hsa_result rt kw of Inl e \<Rightarrow> Inl e | Inr result \<Rightarrow> Inr (json_dumps rt result))"

definition fsa_hsa_calculator_tool :: BaseTool where
  "fsa_hsa_calculator_tool =
     \<lparr>tool_name = ''fsa_hsa_calculator'',
      tool_description =
        ''Calculate optimal FSA/HSA contributions based on expected medical expenses'',
      tool_inputs =
        [mk_input ''expected_medical_expenses'' FLOAT ''Expected annual medical expenses in USD'' True,
         mk_input ''account_type'' STRING ''Type of account (FSA, HSA, both)'' True,
         mk_input ''current_age'' INTEGER ''Employee's current age'' False,
         mk_input ''retirement_age'' INTEGER ''Expected retirement age'' False],
      tool_call = fsa_hsa_call\<rparr>"

subsection \<open>The registry\<close>

type_synonym registry = "(string \<times> BaseTool) list"

definition TOOL_REGISTRY :: registry where
  "TOOL_REGISTRY =
     [(tool_name calculate_pension_tool, calculate_pension_tool),
      (tool_name health_insurance_lookup_tool, health_insurance_lookup_tool),
      (tool_name pto_balance_tool, pto_balance_tool),
      (tool_name benefits_enrollment_tool, benefits_enrollment_tool),
      (tool_name fsa_hsa_calculator_tool, fsa_hsa_calculator_tool)]"

text \<open>
  \<open>get_tool\<close> reads the module's registry; the registry is a parameter here, so that the
  loop can be stated for any catalog.
\<close>

definition get_tool :: "registry \<Rightarrow> string \<Rightarrow> BaseTool option" where
  "get_tool reg name = map_of reg name"

section \<open>The provider boundary\<close>

text \<open>
  What \<open>client.responses.create\<close> returns: objects of the provider's SDK, read with
  \<open>getattr\<close>. An attribute is \<open>None\<close> here when the object lacks it or holds \<open>None\<close>; for
  \<open>arguments\<close> and \<open>input\<close>, whose defaults are not \<open>None\<close>, it is \<open>None\<close> only when the object
  lacks it. \<open>item_class\<close> is the name of the object's class.
\<close>

record content_part =
  cp_type :: "string option"
  cp_id :: "string option"
  cp_name :: "string option"
  cp_input :: "json option"

record output_item =
  item_class :: string
  item_type :: "string option"
  item_name :: "string option"
  item_arguments :: "json option"
  item_call_id :: "string option"
  item_content :: "content_part list option"

record response =
  resp_output :: "output_item list option"
  resp_output_text :: "string option"

text \<open>The dictionaries \<open>invoke_openai\<close> builds from a response.\<close>

record function_call =
  fc_name :: "string option"
  fc_arguments :: json
  fc_call_id :: "string option"

record tool_use =
  tu_id :: "string option"
  tu_name :: "string option"
  tu_input :: json

record invoke_result =
  output_items :: "output_item list"
  function_calls :: "function_call list"
  tool_uses :: "tool_use list"
  output_text :: "string option"

text \<open>
  An element of the transcript \<open>loop_input\<close>: a message of the caller's, an output item of
  the provider's, or one of the two result dictionaries the loop appends.
\<close>

datatype input_item =
    Message json
  | Emitted output_item
  | FunctionCallOutput (fco_call_id: "string option") (fco_output: string)
  | ToolResult (tr_tool_use_id: "string option") (tr_content: string)

record request =
  req_model :: string
  req_input :: "input_item list"
  req_tools :: "OpenAIFunction list option"
  req_tool_choice :: "string option"

text \<open>
  The provider is outside the program: a state \<open>'p\<close> of its own and a function that answers a
  request with a response or an exception. \<open>calls\<close> counts the requests made.
\<close>

type_synonym 'p provider = "'p \<Rightarrow> request \<Rightarrow> (exn + response) \<times> 'p"

record 'p world =
  prov :: 'p
  calls :: nat

definition key_missing :: "string option \<Rightarrow> bool" where
  "key_missing openai_api_key = (case openai_api_key of None \<Rightarrow> True | Some k \<Rightarrow> k = [])"

definition item_function_calls :: "output_item \<Rightarrow> function_call list" where
  "item_function_calls item =
     (if item_type item = Some ''function_call''
      then [\<lparr>fc_name = item_name item,
             fc_arguments = (case item_arguments item of None \<Rightarrow> JStr ''{}'' | Some a \<Rightarrow> a),
             fc_call_id = item_call_id item\<rparr>]
      else [])"

definition item_tool_uses :: "output_item \<Rightarrow> tool_use list" where
  "item_tool_uses item =
     (let contents = (case item_content item of None \<Rightarrow> [] | Some cs \<Rightarrow> cs)
      in map (\<lambda>c. \<lparr>tu_id = cp_id c, tu_name = cp_name c,
                    tu_input = (case cp_input c of None \<Rightarrow> JObj [] | Some i \<Rightarrow> i)\<rparr>)
           (filter (\<lambda>c. cp_type c = Some ''tool_use'') contents))"

definition parse_response :: "response \<Rightarrow> invoke_result" where
  "parse_response response =
     (let items = (case resp_output response of None \<Rightarrow> [] | Some xs \<Rightarrow> xs)
      in \<lparr>output_items = items,
          function_calls = concat (map item_function_calls items),
          tool_uses = concat (map item_tool_uses items),
          output_text = resp_output_text response\<rparr>)"

definition response_kwargs ::
    "string \<Rightarrow> input_item list \<Rightarrow> OpenAIFunction list option \<Rightarrow> request" where
  "response_kwargs model input_list tools =
     (let given = (case tools of None \<Rightarrow> False | Some ts \<Rightarrow> ts \<noteq> [])
      in \<lparr>req_model = model, req_input = input_list,
          req_tools = (if given then tools else None),
          req_tool_choice = (if given then Some ''auto'' else None)\<rparr>)"

definition invoke_openai ::
    "string option \<Rightarrow> 'p provider \<Rightarrow> input_item list \<Rightarrow> OpenAIFunction list option \<Rightarrow> string
      \<Rightarrow> 'p world \<Rightarrow> (exn + invoke_result) \<times> 'p world" where
  "invoke_openai openai_api_key create input_list tools model w =
     (if key_missing openai_api_key
      then (Inl (Exn ''ValueError'' ''OPENAI_API_KEY environment variable is required''), w)
      else
        (let (r, p') = create (prov w) (response_kwargs model input_list tools);
             w' = \<lparr>prov = p', calls = Suc (calls w)\<rparr>
         in case r of Inl e \<Rightarrow> (Inl e, w') | Inr response \<Rightarrow> (Inr (parse_response response), w')))"

section \<open>The tool-resolution loop\<close>

definition parse_args :: "py_runtime \<Rightarrow> json \<Rightarrow> json" where
  "parse_args rt args_json =
     (case args_json of
        JStr s \<Rightarrow> (case json_loads rt s of Inl e \<Rightarrow> JObj [] | Inr v \<Rightarrow> v)
      | _ \<Rightarrow> if py_truthy args_json then args_json else JObj [])"

text \<open>
  The keyword arguments that \<open>tool_impl(**parsed_args)\<close> binds. Every tool is declared
  \<open>__call__(self, **kwargs)\<close>, so the call reaches the tool's body when the arguments are a
  mapping without the key \<open>self\<close>; otherwise the call itself raises TypeError.
\<close>

definition bound_kwargs :: "json \<Rightarrow> kwargs option" where
  "bound_kwargs parsed_args =
     (case parsed_args of
        JObj kw \<Rightarrow> if map_of kw ''self'' = None then Some kw else None
      | _ \<Rightarrow> None)"

text \<open>
  The inner \<open>try\<close> body: the call, then \<open>json.loads\<close> of what the tool returned. (The
  \<open>print\<close> between them writes to standard output, which is not modelled.)
\<close>

definition run_tool :: "py_runtime \<Rightarrow> BaseTool \<Rightarrow> json \<Rightarrow> exn + json" where
  "run_tool rt tool_impl parsed_args =
     (case bound_kwargs parsed_args of
        Some kw \<Rightarrow>
          (case tool_call tool_impl rt kw of
             Inl e \<Rightarrow> Inl e
           | Inr output_str \<Rightarrow> json_loads rt output_str)
      | None \<Rightarrow> Inl (call_error rt parsed_args))"

definition error_payload :: "exn \<Rightarrow> json \<Rightarrow> json" where
  "error_payload e parsed_args =
     JObj [(''error'', JStr (''Tool execution failed: '' @ exn_str e)), (''input'', parsed_args)]"

definition placeholder_payload :: "py_runtime \<Rightarrow> string option \<Rightarrow> json \<Rightarrow> json" where
  "placeholder_payload rt name args_json =
     JObj [(''result'',
            JStr (''Function '' @ [CHR 0x27] @ str_opt name @ [CHR 0x27] @ '' called with args ''
                  @ py_str rt args_json @ ''. Implementation needed.''))]"

text \<open>
  The tool the request names, when the name is not empty and the catalog holds it.
\<close>

definition named_tool :: "registry \<Rightarrow> string option \<Rightarrow> BaseTool option" where
  "named_tool reg name =
     (case name of None \<Rightarrow> None | Some n \<Rightarrow> if n = [] then None else get_tool reg n)"

text \<open>
  One pass of the loop over \<open>function_calls\<close>: the payload, the flag \<open>executed\<close>, and the
  calls that reached a tool (its name and its keyword arguments).
\<close>

record resolution =
  result_payload :: json
  executed :: bool
  reached :: "(string \<times> kwargs) list"

definition resolve_function_call :: "py_runtime \<Rightarrow> registry \<Rightarrow> function_call \<Rightarrow> resolution" where
  "resolve_function_call rt reg fc =
     (let name = fc_name fc;
          args_json = fc_arguments fc;
          parsed_args = parse_args rt args_json
      in case named_tool reg name of
           Some tool_impl \<Rightarrow>
             \<lparr>result_payload =
                (case run_tool rt tool_impl parsed_args of
                   Inr payload \<Rightarrow> payload
                 | Inl e \<Rightarrow> error_payload e parsed_args),
              executed = True,
              reached =
                (case bound_kwargs parsed_args of
                   Some kw \<Rightarrow> [(str_opt name, kw)]
                 | None \<Rightarrow> [])\<rparr>
         | None \<Rightarrow>
             \<lparr>result_payload = placeholder_payload rt name args_json,
              executed = False,
              reached = []\<rparr>)"

definition function_call_output :: "py_runtime \<Rightarrow> registry \<Rightarrow> function_call \<Rightarrow> input_item" where
  "function_call_output rt reg fc =
     FunctionCallOutput (fc_call_id fc)
       (json_dumps rt (result_payload (resolve_function_call rt reg fc)))"

definition tool_result :: "py_runtime \<Rightarrow> tool_use \<Rightarrow> input_item" where
  "tool_result rt tu =
     (let name = tu_name tu;
          args = tu_input tu;
          tool_output =
            JObj [(''result'',
                   JStr (''Tool '' @ [CHR 0x27] @ str_opt name @ [CHR 0x27] @ '' called with args ''
                         @ py_str rt args @ ''. Implementation needed.''))]
      in ToolResult (tu_id tu) (json_dumps rt tool_output))"

text \<open>
  \<open>json.dumps(result)\<close>, the last resort: the output items are SDK objects, which the
  encoder refuses with TypeError at the first one.
\<close>

definition function_call_json :: "function_call \<Rightarrow> json" where
  "function_call_json fc =
     JObj [(''name'', case fc_name fc of None \<Rightarrow> JNull | Some n \<Rightarrow> JStr n),
           (''arguments'', fc_arguments fc),
           (''call_id'', case fc_call_id fc of None \<Rightarrow> JNull | Some i \<Rightarrow> JStr i)]"

definition tool_use_json :: "tool_use \<Rightarrow> json" where
  "tool_use_json tu =
     JObj [(''id'', case tu_id tu of None \<Rightarrow> JNull | Some i \<Rightarrow> JStr i),
           (''name'', case tu_name tu of None \<Rightarrow> JNull | Some n \<Rightarrow> JStr n),
           (''input'', tu_input tu)]"

definition dumps_result :: "py_runtime \<Rightarrow> invoke_result \<Rightarrow> exn + string" where
  "dumps_result rt result =
     (case output_items result of
        item # rest \<Rightarrow>
          Inl (Exn ''TypeError''
                (''Object of type '' @ item_class item @ '' is not JSON serializable''))
      | [] \<Rightarrow>
          Inr (json_dumps rt
                (JObj [(''output_items'', JArr []),
                       (''function_calls'', JArr (map function_call_json (function_calls result))),
                       (''tool_uses'', JArr (map tool_use_json (tool_uses result))),
                       (''output_text'',
                          case output_text result of None \<Rightarrow> JNull | Some t \<Rightarrow> JStr t)])))"

definition final_answer :: "py_runtime \<Rightarrow> invoke_result \<Rightarrow> exn + string" where
  "final_answer rt result =
     (case output_text result of
        Some t \<Rightarrow> if py_strip t \<noteq> [] then Inr t else dumps_result rt result
      | None \<Rightarrow> dumps_result rt result)"

record 'p loop_state =
  loop_input :: "input_item list"
  world :: "'p world"
  invoked :: "(string \<times> kwargs) list"

datatype step = Raise exn | Return string | Continue

text \<open>The body of \<open>for _ in range(max_iterations)\<close>.\<close>

definition iteration ::
    "py_runtime \<Rightarrow> registry \<Rightarrow> string option \<Rightarrow> 'p provider \<Rightarrow> OpenAIFunction list option \<Rightarrow> string
      \<Rightarrow> 'p loop_state \<Rightarrow> step \<times> 'p loop_state" where
  "iteration rt reg openai_api_key create tools model st =
     (case invoke_openai openai_api_key create (loop_input st) tools model (world st) of
        (Inl e, w) \<Rightarrow> (Raise e, st\<lparr>world := w\<rparr>)
      | (Inr result, w) \<Rightarrow>
          (let st1 = st\<lparr>world := w,
                        loop_input :=
                          (if output_items result \<noteq> []
                           then loop_input st @ map Emitted (output_items result)
                           else loop_input st)\<rparr>
           in if function_calls result = [] \<and> tool_uses result = []
              then (case final_answer rt result of
                      Inl e \<Rightarrow> (Raise e, st1)
                    | Inr answer \<Rightarrow> (Return answer, st1))
              else (Continue,
                    st1\<lparr>loop_input :=
                          loop_input st1
                            @ map (function_call_output rt reg) (function_calls result)
                            @ map (tool_result rt) (tool_uses result),
                        invoked :=
                          invoked st1
                            @ concat (map (\<lambda>fc. reached (resolve_function_call rt reg fc))
                                        (function_calls result))\<rparr>)))"

fun run_loop ::
    "py_runtime \<Rightarrow> registry \<Rightarrow> string option \<Rightarrow> 'p provider \<Rightarrow> OpenAIFunction list option \<Rightarrow> string
      \<Rightarrow> nat \<Rightarrow> 'p loop_state \<Rightarrow> (exn + string) \<times> 'p loop_state" where
  "run_loop rt reg openai_api_key create tools model 0 st =
     (Inr ''Reached max tool iterations without final answer.'', st)"
| "run_loop rt reg openai_api_key create tools model (Suc k) st =
     (case iteration rt reg openai_api_key create tools model st of
        (Raise e, st') \<Rightarrow> (Inl e, st')
      | (Return answer, st') \<Rightarrow> (Inr answer, st')
      | (Continue, st') \<Rightarrow> run_loop rt reg openai_api_key create tools model k st')"

text \<open>
  \<open>range(max_iterations)\<close> is empty for a negative bound. The caller's list is copied, so
  the transcript starts as \<open>input_list\<close>; \<open>p0\<close> is the provider's state at entry.
\<close>

definition invoke_openai_loop ::
    "py_runtime \<Rightarrow> registry \<Rightarrow> string option \<Rightarrow> 'p provider \<Rightarrow> input_item list
      \<Rightarrow> OpenAIFunction list option \<Rightarrow> string \<Rightarrow> int \<Rightarrow> 'p \<Rightarrow> (exn + string) \<times> 'p loop_state" where
  "invoke_openai_loop rt reg openai_api_key create input_list tools model max_iterations p0 =
     (let st0 = \<lparr>loop_input = input_list, world = \<lparr>prov = p0, calls = 0\<rparr>, invoked = []\<rparr>
      in if key_missing openai_api_key
         then (Inl (Exn ''ValueError'' ''OPENAI_API_KEY environment variable is required''), st0)
         else run_loop rt reg openai_api_key create tools model (nat max_iterations) st0)"

text \<open>
  A response asks for tools when \<open>function_calls\<close> or \<open>tool_uses\<close> is not empty: the test
  \<open>if not function_calls and not tool_uses\<close> fails.
\<close>

definition requests_tool :: "response \<Rightarrow> bool" where
  "requests_tool response =
     (function_calls (parse_response response) \<noteq> [] \<or> tool_uses (parse_response response) \<noteq> [])"

text \<open>The identifier a result item of the transcript carries; \<open>None\<close> for any other item.\<close>

fun result_ref :: "input_item \<Rightarrow> string option option" where
  "result_ref (FunctionCallOutput i out) = Some i"
| "result_ref (ToolResult i c) = Some i"
| "result_ref other = None"

section \<open>Stubs for the examples\<close>

text \<open>
  The examples below run the loop against provider stubs and a runtime whose decoder knows
  the documents the examples use (any other string counts as malformed there). No finite
  float is printed or parsed in an example, and its call errors leave the callable's name
  out.
\<close>

definition pension_output :: string where
  \<open>pension_output =
     ''{"input": {}, "note": "Stub calculate_pension implementation. Replace with real logic."}''\<close>

definition huge_int :: int where
  "huge_int = 10 ^ 400"

definition huge_expenses :: string where
  \<open>huge_expenses = ''{"expected_medical_expenses": 1'' @ replicate 400 (CHR ''0'') @ ''}''\<close>

definition example_loads :: "string \<Rightarrow> exn + json" where
  "example_loads s =
     (if s = huge_expenses then Inr (JObj [(''expected_medical_expenses'', JInt huge_int)])
      else if s = ''{}'' then Inr (JObj [])
      else if s = ''{invalid''
      then Inl (Exn ''JSONDecodeError''
                 ''Expecting property name enclosed in double quotes: line 1 column 2 (char 1)'')
      else if s = pension_output
      then Inr (JObj [(''input'', JObj []),
                      (''note'', JStr ''Stub calculate_pension implementation. Replace with real logic.'')])
      else Inl (Exn ''JSONDecodeError'' ''Expecting value: line 1 column 1 (char 0)''))"

definition example_runtime :: py_runtime where
  "example_runtime =
     \<lparr>json_loads = example_loads,
      float_repr = (\<lambda>r. []),
      float_of_str = (\<lambda>s. None),
      call_error = (\<lambda>v. Exn ''TypeError''
                       (case v of
                          JObj kw \<Rightarrow> ''got multiple values for argument 'self' ''
                        | _ \<Rightarrow> ''argument after ** must be a mapping, not '' @ py_type_name v))\<rparr>"

text \<open>A provider that plays a script: one response per call, an error when it runs out.\<close>

fun scripted :: "(response list) provider" where
  "scripted [] req = (Inl (Exn ''RuntimeError'' ''no response left''), [])"
| "scripted (r # rs) req = (Inr r, rs)"

definition call_item :: "string \<Rightarrow> string \<Rightarrow> string \<Rightarrow> output_item" where
  "call_item name arguments cid =
     \<lparr>item_class = ''ResponseFunctionToolCall'', item_type = Some ''function_call'',
      item_name = Some name, item_arguments = Some (JStr arguments), item_call_id = Some cid,
      item_content = None\<rparr>"

definition tool_use_item :: "string \<Rightarrow> string \<Rightarrow> json \<Rightarrow> output_item" where
  "tool_use_item tid name inp =
     \<lparr>item_class = ''ResponseOutputMessage'', item_type = Some ''message'', item_name = None,
      item_arguments = None, item_call_id = None,
      item_content = Some [\<lparr>cp_type = Some ''tool_use'', cp_id = Some tid, cp_name = Some name,
                             cp_input = Some inp\<rparr>]\<rparr>"

definition respond :: "output_item list \<Rightarrow> string \<Rightarrow> response" where
  "respond items t = \<lparr>resp_output = Some items, resp_output_text = Some t\<rparr>"


definition start :: "input_item list \<Rightarrow> 'p \<Rightarrow> 'p loop_state" where
  "start input_list p0 = \<lparr>loop_input = input_list, world = \<lparr>prov = p0, calls = 0\<rparr>, invoked = []\<rparr>"

text \<open>
  A response with three requests: a registered tool, an unknown tool with malformed
  arguments, and a \<open>tool_use\<close> content part.
\<close>

definition mixed_response :: response where
  "mixed_response =
     respond [call_item ''calculate_pension'' ''{}'' ''call_1'',
              call_item ''lookup_weather'' ''{invalid'' ''call_2'',
              tool_use_item ''tu_1'' ''calculate_pension'' (JObj [])] []"

text \<open>A function call that names a tool the catalog does not hold.\<close>

definition unknown_call :: function_call where
  "unknown_call = \<lparr>fc_name = Some ''lookup_weather'', fc_arguments = JStr ''{invalid'',
                    fc_call_id = Some ''call_2''\<rparr>"

text \<open>A call of a registered tool with malformed arguments.\<close>

definition malformed_call :: function_call where
  "malformed_call = \<lparr>fc_name = Some ''calculate_pension'', fc_arguments = JStr ''{invalid'',
                      fc_call_id = Some ''call_3''\<rparr>"

text \<open>
  A call of the FSA/HSA calculator with expenses that no float can hold: the tool raises
  OverflowError.
\<close>

definition overflow_call :: function_call where
  "overflow_call = \<lparr>fc_name = Some ''fsa_hsa_calculator'', fc_arguments = JStr huge_expenses,
                     fc_call_id = Some ''call_4''\<rparr>"

definition overflow_response :: response where
  "overflow_response = respond [call_item ''fsa_hsa_calculator'' huge_expenses ''call_4''] []"

text \<open>Responses of the examples: a tool use, a blank text, a final text.\<close>

definition tool_use_response :: response where
  "tool_use_response = respond [tool_use_item ''tu_1'' ''calculate_pension'' (JObj [])] []"

definition pension_call :: function_call where
  "pension_call = \<lparr>fc_name = Some ''calculate_pension'', fc_arguments = JStr ''{}'',
                    fc_call_id = Some ''call_1''\<rparr>"

definition blank_response :: response where
  "blank_response = respond [] '' ''"

definition message_item :: output_item where
  "message_item =
     \<lparr>item_class = ''ResponseOutputMessage'', item_type = Some ''message'', item_name = None,
      item_arguments = None, item_call_id = None, item_content = Some []\<rparr>"

definition final_response :: response where
  "final_response = respond [message_item] ''Your projected pension is ...''"

text \<open>The text of a response, when it is a string with a character that is not whitespace.\<close>

definition answer_text :: "response \<Rightarrow> string option" where
  "answer_text response =
     (case resp_output_text response of
        None \<Rightarrow> None
      | Some t \<Rightarrow> if py_strip t \<noteq> [] then Some t else None)"

text \<open>The \<open>recommendations\<close> entry of what the calculator builds.\<close>

definition recommendations_of :: "exn + json \<Rightarrow> json option" where
  "recommendations_of r =
     (case r of Inr (JObj kvs) \<Rightarrow> map_of kvs ''recommendations'' | _ \<Rightarrow> None)"

text \<open>Arguments whose expenses are the float NaN, as \<open>json.loads\<close> gives for the literal \<open>NaN\<close>.\<close>

definition nan_kwargs :: kwargs where
  "nan_kwargs = [(''expected_medical_expenses'', JFloat NaN), (''account_type'', JStr ''fsa'')]"

text \<open>\<open>a <= b\<close> on numbers: false when either side is NaN.\<close>

definition num_le :: "pynum \<Rightarrow> pynum \<Rightarrow> bool" where
  "num_le a b = (to_float a \<noteq> NaN \<and> to_float b \<noteq> NaN \<and> \<not> flt (to_float b) (to_float a))"

text \<open>A response that asks for \<open>calculate_pension\<close> with empty arguments.\<close>

definition pension_request :: response where
  "pension_request = respond [call_item ''calculate_pension'' ''{}'' ''call_1''] []"

text \<open>A response holding the call of a registered tool with malformed arguments.\<close>

definition malformed_response :: response where
  "malformed_response = respond [call_item ''calculate_pension'' ''{invalid'' ''call_3''] []"

section \<open>The loop, one iteration at a time\<close>

lemma invoke_openai_ok:
  "\<not> key_missing key \<Longrightarrow> create (prov w) (response_kwargs model input tools) = (Inr response, p')
   \<Longrightarrow> invoke_openai key create input tools model w
       = (Inr (parse_response response), \<lparr>prov = p', calls = Suc (calls w)\<rparr>)"
  by (simp add: invoke_openai_def)

lemma iteration_requests:
  assumes "invoke_openai key create (loop_input st) tools model (world st) = (Inr result, w)"
    and "function_calls result \<noteq> [] \<or> tool_uses result \<noteq> []"
  shows "iteration rt reg key create tools model st =
     (Continue,
      \<lparr>loop_input = loop_input st @ map Emitted (output_items result)
          @ map (function_call_output rt reg) (function_calls result)
          @ map (tool_result rt) (tool_uses result),
       world = w,
       invoked = invoked st @ concat (map (\<lambda>fc. reached (resolve_function_call rt reg fc))
                                        (function_calls result))\<rparr>)"
  using assms by (auto simp: iteration_def Let_def)

lemma iteration_final:
  assumes "invoke_openai key create (loop_input st) tools model (world st) = (Inr result, w)"
    and "function_calls result = []" "tool_uses result = []"
  shows "iteration rt reg key create tools model st =
     (case final_answer rt result of Inl e \<Rightarrow> Raise e | Inr answer \<Rightarrow> Return answer,
      \<lparr>loop_input = loop_input st @ map Emitted (output_items result), world = w,
       invoked = invoked st\<rparr>)"
  using assms by (auto simp: iteration_def Let_def split: sum.splits)

lemma key_present: "\<not> key_missing (Some ''sk-test'')"
  by (simp add: key_missing_def)

lemma mixed_requests:
  "function_calls (parse_response mixed_response)
     = [\<lparr>fc_name = Some ''calculate_pension'', fc_arguments = JStr ''{}'', fc_call_id = Some ''call_1''\<rparr>,
        \<lparr>fc_name = Some ''lookup_weather'', fc_arguments = JStr ''{invalid'', fc_call_id = Some ''call_2''\<rparr>]"
  "tool_uses (parse_response mixed_response)
     = [\<lparr>tu_id = Some ''tu_1'', tu_name = Some ''calculate_pension'', tu_input = JObj []\<rparr>]"
  by (simp_all add: mixed_response_def respond_def parse_response_def item_function_calls_def
      item_tool_uses_def call_item_def tool_use_item_def)

text \<open>
  Claim C1. Take one iteration of the loop in which the provider answers with a response
  holding \<open>n\<close> tool requests: its function calls \<open>fcs\<close> and its tool uses \<open>tus\<close>. The
  iteration makes exactly one provider call and leaves the transcript extended by the
  response's output items followed by exactly \<open>n\<close> result items: one per function call, in
  order, then one per tool use, in order, each carrying the identifier of its request. When
  \<open>n > 0\<close> the loop goes on from that transcript, so the results are in place before the
  next provider call.
\<close>

theorem C1_one_result_per_request:
  assumes "\<not> key_missing key"
    and "create (prov (world st)) (response_kwargs model (loop_input st) tools) = (Inr response, p')"
    and "fcs = function_calls (parse_response response)"
    and "tus = tool_uses (parse_response response)"
    and "results = map (function_call_output rt reg) fcs @ map (tool_result rt) tus"
  shows "loop_input (snd (iteration rt reg key create tools model st))
           = loop_input st @ map Emitted (output_items (parse_response response)) @ results
       \<and> length results = length fcs + length tus
       \<and> map result_ref results = map (\<lambda>fc. Some (fc_call_id fc)) fcs @ map (\<lambda>tu. Some (tu_id tu)) tus
       \<and> calls (world (snd (iteration rt reg key create tools model st))) = Suc (calls (world st))
       \<and> (if fcs = [] \<and> tus = [] then fst (iteration rt reg key create tools model st) \<noteq> Continue
          else fst (iteration rt reg key create tools model st) = Continue
             \<and> (\<forall>k. run_loop rt reg key create tools model (Suc k) st
                  = run_loop rt reg key create tools model k
                      (snd (iteration rt reg key create tools model st))))"
proof -
  let ?result = "parse_response response"
  let ?w = "\<lparr>prov = p', calls = Suc (calls (world st))\<rparr>"
  have inv: "invoke_openai key create (loop_input st) tools model (world st) = (Inr ?result, ?w)"
    using assms(1,2) by (rule invoke_openai_ok)
  have ids: "map result_ref results
      = map (\<lambda>fc. Some (fc_call_id fc)) fcs @ map (\<lambda>tu. Some (tu_id tu)) tus"
    by (simp add: assms(5) function_call_output_def tool_result_def Let_def comp_def)
  show ?thesis
  proof (cases "fcs = [] \<and> tus = []")
    case True
    then have "iteration rt reg key create tools model st =
     (case final_answer rt ?result of Inl e \<Rightarrow> Raise e | Inr answer \<Rightarrow> Return answer,
      \<lparr>loop_input = loop_input st @ map Emitted (output_items ?result), world = ?w,
       invoked = invoked st\<rparr>)"
      using iteration_final[OF inv] assms(3,4) by simp
    with True ids show ?thesis
      by (simp add: assms(5) split: sum.splits)
  next
    case False
    then have "function_calls ?result \<noteq> [] \<or> tool_uses ?result \<noteq> []"
      using assms(3,4) by simp
    from iteration_requests[OF inv this, of rt reg] False ids show ?thesis
      by (simp add: assms(3,4,5))
  qed
qed

theorem C1_one_result_per_request_witness:
  "\<not> key_missing (Some ''sk-test'')
   \<and> scripted (prov (world (start [] [mixed_response])))
        (response_kwargs ''gpt-4'' (loop_input (start [] [mixed_response])) None)
       = (Inr mixed_response, [])
   \<and> length (function_calls (parse_response mixed_response)) = 2
   \<and> length (tool_uses (parse_response mixed_response)) = 1
   \<and> map result_ref (drop 3 (loop_input (snd (iteration example_runtime TOOL_REGISTRY
          (Some ''sk-test'') scripted None ''gpt-4'' (start [] [mixed_response])))))
       = [Some (Some ''call_1''), Some (Some ''call_2''), Some (Some ''tu_1'')]
   \<and> fst (iteration example_runtime TOOL_REGISTRY (Some ''sk-test'') scripted None ''gpt-4''
          (start [] [mixed_response])) = Continue
   \<and> calls (world (snd (iteration example_runtime TOOL_REGISTRY (Some ''sk-test'') scripted None
          ''gpt-4'' (start [] [mixed_response])))) = 1"
proof -
  have h: "scripted (prov (world (start [] [mixed_response])))
        (response_kwargs ''gpt-4'' (loop_input (start [] [mixed_response])) None)
       = (Inr mixed_response, [])"
    by (simp add: start_def)
  have items: "length (output_items (parse_response mixed_response)) = 3"
    by (simp add: mixed_response_def respond_def parse_response_def)
  from C1_one_result_per_request[where create = scripted and st = "start [] [mixed_response]"
      and rt = example_runtime and reg = TOOL_REGISTRY, OF key_present h refl refl refl]
  show ?thesis
    using h items by (simp add: key_present mixed_requests start_def)
qed

section \<open>Exhaustion\<close>





section \<open>Resolving one request\<close>


lemma json_quote_needed:
  "json_quote (pre @ ''. Implementation needed.'')
     = ([CHR 0x22] @ concat (map json_escape_char pre) @ ''. '') @ ''Implementation needed''
       @ (''.'' @ [CHR 0x22])"
  by (simp add: json_quote_def json_escape_char_def Let_def)

lemma needed_in_payload:
  "sublist ''Implementation needed''
     (json_dumps rt (JObj [(''result'', JStr (pre @ ''. Implementation needed.''))]))"
proof -
  have "json_dumps rt (JObj [(''result'', JStr (pre @ ''. Implementation needed.''))])
      = (''{'' @ json_quote ''result'' @ '': '' @ [CHR 0x22] @ concat (map json_escape_char pre) @ ''. '')
        @ ''Implementation needed'' @ (''.'' @ [CHR 0x22] @ ''}'')"
    by (simp add: json_quote_needed)
  then show ?thesis
    by (metis sublist_appendI)
qed

lemma named_tool_None:
  "named_tool reg name = None \<longleftrightarrow>
     (name = None \<or> name = Some [] \<or> (\<exists>n. name = Some n \<and> get_tool reg n = None))"
  by (auto simp: named_tool_def split: option.splits)

lemma placeholder_resolution:
  assumes "fc_name fc = None \<or> fc_name fc = Some []
           \<or> (\<exists>n. fc_name fc = Some n \<and> get_tool reg n = None)"
  shows "function_call_output rt reg fc
           = FunctionCallOutput (fc_call_id fc)
               (json_dumps rt (JObj [(''result'',
                  JStr (''Function '' @ [CHR 0x27] @ str_opt (fc_name fc) @ [CHR 0x27]
                        @ '' called with args '' @ py_str rt (fc_arguments fc)
                        @ ''. Implementation needed.''))]))
       \<and> sublist ''Implementation needed'' (fco_output (function_call_output rt reg fc))
       \<and> executed (resolve_function_call rt reg fc) = False
       \<and> reached (resolve_function_call rt reg fc) = []
       \<and> sublist ''Implementation needed'' (tr_content (tool_result rt tu))"
proof -
  from assms have n: "named_tool reg (fc_name fc) = None"
    by (simp add: named_tool_None)
  have r: "resolve_function_call rt reg fc =
      \<lparr>result_payload = placeholder_payload rt (fc_name fc) (fc_arguments fc),
       executed = False, reached = []\<rparr>"
    by (simp add: resolve_function_call_def n Let_def)
  have out: "fco_output (function_call_output rt reg fc)
      = json_dumps rt (JObj [(''result'',
          JStr ((''Function '' @ [CHR 0x27] @ str_opt (fc_name fc) @ [CHR 0x27]
                @ '' called with args '' @ py_str rt (fc_arguments fc))
                @ ''. Implementation needed.''))])"
    by (simp add: function_call_output_def r placeholder_payload_def)
  have a: "sublist ''Implementation needed'' (fco_output (function_call_output rt reg fc))"
    unfolding out by (rule needed_in_payload)
  have t: "tr_content (tool_result rt tu)
      = json_dumps rt (JObj [(''result'',
          JStr ((''Tool '' @ [CHR 0x27] @ str_opt (tu_name tu) @ [CHR 0x27]
                @ '' called with args '' @ py_str rt (tu_input tu))
                @ ''. Implementation needed.''))])"
    by (simp add: tool_result_def Let_def)
  have b: "sublist ''Implementation needed'' (tr_content (tool_result rt tu))"
    unfolding t by (rule needed_in_payload)
  show ?thesis
    using a b by (simp add: function_call_output_def r placeholder_payload_def)
qed

lemma registry_names:
  "get_tool TOOL_REGISTRY ''calculate_pension'' = Some calculate_pension_tool"
  "get_tool TOOL_REGISTRY ''fsa_hsa_calculator'' = Some fsa_hsa_calculator_tool"
  "get_tool TOOL_REGISTRY ''lookup_weather'' = None"
  by (simp_all add: get_tool_def TOOL_REGISTRY_def calculate_pension_tool_def
      health_insurance_lookup_tool_def pto_balance_tool_def benefits_enrollment_tool_def
      fsa_hsa_calculator_tool_def)

lemma named_tool_Some:
  "name = Some n \<Longrightarrow> n \<noteq> [] \<Longrightarrow> named_tool reg name = get_tool reg n"
  by (simp add: named_tool_def)

lemma malformed_resolution:
  assumes "fc_arguments fc = JStr raw"
    and "json_loads rt raw = Inl e"
    and "fc_name fc = Some n" and "n \<noteq> []"
    and "get_tool reg n = Some tool_impl"
  shows "parse_args rt (fc_arguments fc) = JObj []
       \<and> reached (resolve_function_call rt reg fc) = [(n, [])]
       \<and> executed (resolve_function_call rt reg fc) = True
       \<and> result_payload (resolve_function_call rt reg fc)
           = (case tool_call tool_impl rt [] of
                Inl e' \<Rightarrow> error_payload e' (JObj [])
              | Inr output_str \<Rightarrow>
                  (case json_loads rt output_str of
                     Inl e' \<Rightarrow> error_payload e' (JObj [])
                   | Inr payload \<Rightarrow> payload))"
proof -
  have p: "parse_args rt (fc_arguments fc) = JObj []"
    by (simp add: parse_args_def assms(1,2))
  have t: "named_tool reg (Some n) = Some tool_impl"
    using assms(4,5) by (simp add: named_tool_def)
  have r: "resolve_function_call rt reg fc =
      \<lparr>result_payload =
         (case run_tool rt tool_impl (JObj []) of
            Inr payload \<Rightarrow> payload
          | Inl e' \<Rightarrow> error_payload e' (JObj [])),
       executed = True, reached = [(n, [])]\<rparr>"
    by (simp add: resolve_function_call_def Let_def p t assms(3) str_opt_def bound_kwargs_def
        cong: sum.case_cong)
  show ?thesis
    by (simp add: r p run_tool_def bound_kwargs_def split: sum.splits)
qed

lemma registry_tools:
  "get_tool TOOL_REGISTRY ''calculate_pension'' = Some calculate_pension_tool"
  "get_tool TOOL_REGISTRY ''fsa_hsa_calculator'' = Some fsa_hsa_calculator_tool"
  by (simp_all add: get_tool_def TOOL_REGISTRY_def calculate_pension_tool_def
      health_insurance_lookup_tool_def pto_balance_tool_def benefits_enrollment_tool_def
      fsa_hsa_calculator_tool_def)

lemma pension_empty_call:
  "tool_call calculate_pension_tool example_runtime [] = Inr pension_output"
  by (simp add: calculate_pension_tool_def stub_call_def pension_output_def json_quote_def
      json_escape_char_def Let_def)

lemma loads_invalid:
  "json_loads example_runtime ''{invalid''
     = Inl (Exn ''JSONDecodeError''
             ''Expecting property name enclosed in double quotes: line 1 column 2 (char 1)'')"
  by (simp add: example_runtime_def example_loads_def huge_expenses_def)

lemma loads_pension:
  "json_loads example_runtime pension_output
     = Inr (JObj [(''input'', JObj []),
                  (''note'', JStr ''Stub calculate_pension implementation. Replace with real logic.'')])"
  by (simp add: example_runtime_def example_loads_def huge_expenses_def pension_output_def)

text \<open>
  Claim C5. When the tool a function call names raises an exception \<open>e\<close> on the parsed
  arguments, the exception does not leave the loop: the iteration continues, and the result
  appended for that call is \<open>{"error": "Tool execution failed: <e>", "input": <parsed
  arguments>}\<close>.
\<close>

theorem C5_tool_exception_becomes_payload:
  assumes "fc_name fc = Some n" and "n \<noteq> []"
    and "get_tool reg n = Some tool_impl"
    and "parse_args rt (fc_arguments fc) = JObj kw"
    and "map_of kw ''self'' = None"
    and "tool_call tool_impl rt kw = Inl e"
    and "\<not> key_missing key"
    and "create (prov (world st)) (response_kwargs model (loop_input st) tools) = (Inr response, p')"
    and "fc \<in> set (function_calls (parse_response response))"
  shows "function_call_output rt reg fc
           = FunctionCallOutput (fc_call_id fc)
               (json_dumps rt (JObj [(''error'', JStr (''Tool execution failed: '' @ exn_str e)),
                                     (''input'', JObj kw)]))
       \<and> fst (iteration rt reg key create tools model st) = Continue
       \<and> function_call_output rt reg fc
           \<in> set (loop_input (snd (iteration rt reg key create tools model st)))"
proof -
  have t: "named_tool reg (Some n) = Some tool_impl"
    using assms(2,3) by (simp add: named_tool_def)
  have "run_tool rt tool_impl (JObj kw) = Inl e"
    by (simp add: run_tool_def bound_kwargs_def assms(5,6))
  then have r: "result_payload (resolve_function_call rt reg fc) = error_payload e (JObj kw)"
    by (simp add: resolve_function_call_def Let_def t assms(1,4))
  have out: "function_call_output rt reg fc
           = FunctionCallOutput (fc_call_id fc)
               (json_dumps rt (JObj [(''error'', JStr (''Tool execution failed: '' @ exn_str e)),
                                     (''input'', JObj kw)]))"
    unfolding function_call_output_def r error_payload_def ..
  let ?result = "parse_response response"
  have inv: "invoke_openai key create (loop_input st) tools model (world st)
      = (Inr ?result, \<lparr>prov = p', calls = Suc (calls (world st))\<rparr>)"
    using assms(7,8) by (rule invoke_openai_ok)
  from assms(9) have "function_calls ?result \<noteq> [] \<or> tool_uses ?result \<noteq> []"
    by auto
  from iteration_requests[OF inv this, of rt reg] assms(9)
  have "fst (iteration rt reg key create tools model st) = Continue
       \<and> function_call_output rt reg fc
           \<in> set (loop_input (snd (iteration rt reg key create tools model st)))"
    by simp
  with out show ?thesis by simp
qed

lemma loads_huge:
  "json_loads example_runtime huge_expenses
     = Inr (JObj [(''expected_medical_expenses'', JInt huge_int)])"
  by (simp add: example_runtime_def example_loads_def)

lemma fsa_overflows:
  "tool_call fsa_hsa_calculator_tool example_runtime [(''expected_medical_expenses'', JInt huge_int)]
     = Inl (Exn ''OverflowError'' ''int too large to convert to float'')"
proof -
  have "(2::int) ^ 1024 - 2 ^ 970 \<le> \<bar>huge_int\<bar>"
    by (simp add: huge_int_def)
  then show ?thesis
    by (simp add: fsa_hsa_calculator_tool_def fsa_hsa_call_def fsa_hsa_result_def fsa_expenses_def
        kwargs_get_def py_float_def)
qed

lemma overflow_requests:
  "function_calls (parse_response overflow_response) = [overflow_call]"
  by (simp add: overflow_response_def overflow_call_def respond_def parse_response_def
      item_function_calls_def call_item_def)

theorem C5_tool_exception_becomes_payload_witness:
  "fc_name overflow_call = Some ''fsa_hsa_calculator''
   \<and> get_tool TOOL_REGISTRY ''fsa_hsa_calculator'' = Some fsa_hsa_calculator_tool
   \<and> parse_args example_runtime (fc_arguments overflow_call)
       = JObj [(''expected_medical_expenses'', JInt huge_int)]
   \<and> tool_call fsa_hsa_calculator_tool example_runtime
         [(''expected_medical_expenses'', JInt huge_int)]
       = Inl (Exn ''OverflowError'' ''int too large to convert to float'')
   \<and> overflow_call \<in> set (function_calls (parse_response overflow_response))
   \<and> function_call_output example_runtime TOOL_REGISTRY overflow_call
       = FunctionCallOutput (Some ''call_4'')
           (json_dumps example_runtime
              (JObj [(''error'', JStr ''Tool execution failed: int too large to convert to float''),
                     (''input'', JObj [(''expected_medical_expenses'', JInt huge_int)])]))
   \<and> fst (iteration example_runtime TOOL_REGISTRY (Some ''sk-test'') scripted None ''gpt-4''
          (start [] [overflow_response])) = Continue"
proof -
  have n: "fc_name overflow_call = Some ''fsa_hsa_calculator''"
    by (simp add: overflow_call_def)
  have ne: "''fsa_hsa_calculator'' \<noteq> []" by simp
  have p: "parse_args example_runtime (fc_arguments overflow_call)
       = JObj [(''expected_medical_expenses'', JInt huge_int)]"
    by (simp add: parse_args_def overflow_call_def loads_huge)
  have s: "map_of [(''expected_medical_expenses'', JInt huge_int)] ''self'' = None"
    by simp
  have h: "scripted (prov (world (start [] [overflow_response])))
        (response_kwargs ''gpt-4'' (loop_input (start [] [overflow_response])) None)
       = (Inr overflow_response, [])"
    by (simp add: start_def)
  have m: "overflow_call \<in> set (function_calls (parse_response overflow_response))"
    by (simp add: overflow_requests)
  note c = C5_tool_exception_becomes_payload[where create = scripted
      and st = "start [] [overflow_response]", OF n ne registry_tools(2) p s fsa_overflows key_present h m]
  have o: "fc_call_id overflow_call = Some ''call_4''"
    by (simp add: overflow_call_def)
  show ?thesis
    using n registry_tools(2) p fsa_overflows m c o by simp
qed

section \<open>The schema adapter\<close>

lemma dom_tool_properties_aux:
  "fst ` set (fold (\<lambda>tool_input properties.
             AList.update (ti_name tool_input) (property_data tool_input) properties) inputs acc)
   = ti_name ` set inputs \<union> fst ` set acc"
  by (induction inputs arbitrary: acc) (auto simp: dom_update)

lemma dom_tool_properties: "fst ` set (tool_properties inputs) = ti_name ` set inputs"
  by (simp add: tool_properties_def dom_tool_properties_aux)

lemma distinct_tool_properties_aux:
  "distinct (map fst acc) \<Longrightarrow> distinct (map fst (fold (\<lambda>tool_input properties.
             AList.update (ti_name tool_input) (property_data tool_input) properties) inputs acc))"
  by (induction inputs arbitrary: acc) (auto simp: distinct_update)

lemma distinct_tool_properties: "distinct (map fst (tool_properties inputs))"
  by (simp add: tool_properties_def distinct_tool_properties_aux)



lemma flags_irrelevant:
  "tool_properties (map (\<lambda>ti. ti\<lparr>ti_required := flag ti\<rparr>) inputs) = tool_properties inputs"
  unfolding tool_properties_def
  by (simp add: fold_map comp_def property_data_def)

text \<open>
  Claim C8. For every tool converted to the OpenAI strict function schema, the \<open>required\<close>
  array of the generated parameters object holds exactly the declared parameter names, each
  once, whatever the parameters' own \<open>required\<close> flags are (changing the flags changes
  nothing of the output), and \<open>additionalProperties\<close> is false; the parameters object under
  \<open>function\<close> is the same one.
\<close>

theorem C8_required_lists_every_parameter:
  assumes "i < length tools"
  shows "length (convert_tools_to_openai tools) = length tools
     \<and> set (params_required (fn_parameters (convert_tools_to_openai tools ! i)))
         = ti_name ` set (tool_inputs (tools ! i))
     \<and> distinct (params_required (fn_parameters (convert_tools_to_openai tools ! i)))
     \<and> params_additionalProperties (fn_parameters (convert_tools_to_openai tools ! i)) = False
     \<and> def_parameters (fn_function (convert_tools_to_openai tools ! i))
         = fn_parameters (convert_tools_to_openai tools ! i)
     \<and> fn_strict (convert_tools_to_openai tools ! i) = True
     \<and> convert_tool ((tools ! i)\<lparr>tool_inputs :=
            map (\<lambda>ti. ti\<lparr>ti_required := flag ti\<rparr>) (tool_inputs (tools ! i))\<rparr>)
         = convert_tool (tools ! i)"
  using assms dom_tool_properties[of "tool_inputs (tools ! i)"]
  by (simp add: convert_tools_to_openai_def convert_tool_def Let_def
      distinct_tool_properties flags_irrelevant)

theorem C8_required_lists_every_parameter_witness:
  "(1::nat) < length [calculate_pension_tool, fsa_hsa_calculator_tool]
   \<and> map ti_required (tool_inputs ([calculate_pension_tool, fsa_hsa_calculator_tool] ! 1))
       = [True, True, False, False]
   \<and> set (params_required (fn_parameters
            (convert_tools_to_openai [calculate_pension_tool, fsa_hsa_calculator_tool] ! 1)))
       = {''expected_medical_expenses'', ''account_type'', ''current_age'', ''retirement_age''}
   \<and> params_additionalProperties (fn_parameters
            (convert_tools_to_openai [calculate_pension_tool, fsa_hsa_calculator_tool] ! 1)) = False"
proof -
  have l: "(1::nat) < length [calculate_pension_tool, fsa_hsa_calculator_tool]" by simp
  note c = C8_required_lists_every_parameter[OF l]
  have n: "ti_name ` set (tool_inputs ([calculate_pension_tool, fsa_hsa_calculator_tool] ! 1))
      = {''expected_medical_expenses'', ''account_type'', ''current_age'', ''retirement_age''}"
    by (simp add: fsa_hsa_calculator_tool_def mk_input_def)
  have r: "map ti_required (tool_inputs ([calculate_pension_tool, fsa_hsa_calculator_tool] ! 1))
       = [True, True, False, False]"
    by (simp add: fsa_hsa_calculator_tool_def mk_input_def)
  show ?thesis
    using l r c n by simp
qed




section \<open>The two channels\<close>

lemma function_call_runs_registered_tool:
  assumes "fc_name fc = Some n" and "n \<noteq> []"
    and "get_tool reg n = Some tool_impl"
    and "parse_args rt (fc_arguments fc) = JObj kw"
    and "map_of kw ''self'' = None"
    and "tool_call tool_impl rt kw = Inr output_str"
    and "json_loads rt output_str = Inr payload"
  shows "function_call_output rt reg fc = FunctionCallOutput (fc_call_id fc) (json_dumps rt payload)
       \<and> reached (resolve_function_call rt reg fc) = [(n, kw)]"
proof -
  have t: "named_tool reg (Some n) = Some tool_impl"
    using assms(2,3) by (simp add: named_tool_def)
  have "run_tool rt tool_impl (JObj kw) = Inr payload"
    by (simp add: run_tool_def bound_kwargs_def assms(5,6,7))
  then show ?thesis
    by (simp add: function_call_output_def resolve_function_call_def Let_def t assms(1,4,5)
        str_opt_def bound_kwargs_def)
qed

lemma no_self: "map_of ([] :: kwargs) ''self'' = None"
  by simp

lemma loads_empty: "json_loads example_runtime ''{}'' = Inr (JObj [])"
  by (simp add: example_runtime_def example_loads_def huge_expenses_def)

lemma pension_call_output:
  "function_call_output example_runtime TOOL_REGISTRY pension_call
     = FunctionCallOutput (Some ''call_1'') pension_output"
proof -
  have n: "fc_name pension_call = Some ''calculate_pension''"
    and i: "fc_call_id pension_call = Some ''call_1''"
    by (simp_all add: pension_call_def)
  have ne: "''calculate_pension'' \<noteq> []" by simp
  have p: "parse_args example_runtime (fc_arguments pension_call) = JObj []"
    by (simp add: parse_args_def pension_call_def loads_empty)
  have d: "json_dumps example_runtime
      (JObj [(''input'', JObj []),
             (''note'', JStr ''Stub calculate_pension implementation. Replace with real logic.'')])
      = pension_output"
    by (simp add: pension_output_def json_quote_def json_escape_char_def Let_def)
  from function_call_runs_registered_tool[OF n ne registry_tools(1) p no_self pension_empty_call
      loads_pension]
  have "function_call_output example_runtime TOOL_REGISTRY pension_call
      = FunctionCallOutput (fc_call_id pension_call)
          (json_dumps example_runtime
            (JObj [(''input'', JObj []),
                   (''note'', JStr ''Stub calculate_pension implementation. Replace with real logic.'')]))"
    by (rule conjunct1)
  then show ?thesis by (simp only: i d)
qed

lemma tool_use_requests:
  "function_calls (parse_response tool_use_response) = []"
  "tool_uses (parse_response tool_use_response)
     = [\<lparr>tu_id = Some ''tu_1'', tu_name = Some ''calculate_pension'', tu_input = JObj []\<rparr>]"
  "output_items (parse_response tool_use_response)
     = [tool_use_item ''tu_1'' ''calculate_pension'' (JObj [])]"
  by (simp_all add: tool_use_response_def respond_def parse_response_def item_function_calls_def
      item_tool_uses_def tool_use_item_def)

text \<open>
  Claim C3 says that a request naming a registered tool is looked up and executed on every
  channel. The loop does so for a function call: \<open>calculate_pension\<close> is reached and the
  payload it returned is the result. For a \<open>tool_use\<close> content part naming the same tool it
  does not: the iteration appends the placeholder "Tool 'calculate_pension' called with args
  {}. Implementation needed." and reaches no tool.
\<close>

theorem C3_tool_use_is_never_executed:
  \<open>get_tool TOOL_REGISTRY ''calculate_pension'' = Some calculate_pension_tool
   \<and> iteration example_runtime TOOL_REGISTRY (Some ''sk-test'') scripted None ''gpt-4''
        (start [] [tool_use_response])
       = (Continue,
          \<lparr>loop_input =
             [Emitted (tool_use_item ''tu_1'' ''calculate_pension'' (JObj [])),
              ToolResult (Some ''tu_1'')
                ''{"result": "Tool 'calculate_pension' called with args {}. Implementation needed."}''],
           world = \<lparr>prov = [], calls = 1\<rparr>,
           invoked = []\<rparr>)
   \<and> function_call_output example_runtime TOOL_REGISTRY pension_call
       = FunctionCallOutput (Some ''call_1'') pension_output
   \<and> reached (resolve_function_call example_runtime TOOL_REGISTRY pension_call)
       = [(''calculate_pension'', [])]\<close>
proof -
  have h: "scripted (prov (world (start [] [tool_use_response])))
        (response_kwargs ''gpt-4'' (loop_input (start [] [tool_use_response])) None)
       = (Inr tool_use_response, [])"
    by (simp add: start_def)
  note inv = invoke_openai_ok[where create = scripted, OF key_present h]
  have t: "tool_uses (parse_response tool_use_response) \<noteq> []"
    by (simp add: tool_use_requests)
  have r: \<open>tool_result example_runtime
        \<lparr>tu_id = Some ''tu_1'', tu_name = Some ''calculate_pension'', tu_input = JObj []\<rparr>
      = ToolResult (Some ''tu_1'')
          ''{"result": "Tool 'calculate_pension' called with args {}. Implementation needed."}''\<close>
    by (simp add: tool_result_def Let_def str_opt_def py_str_def json_quote_def
        json_escape_char_def)
  have it: \<open>iteration example_runtime TOOL_REGISTRY (Some ''sk-test'') scripted None ''gpt-4''
        (start [] [tool_use_response])
       = (Continue,
          \<lparr>loop_input =
             [Emitted (tool_use_item ''tu_1'' ''calculate_pension'' (JObj [])),
              ToolResult (Some ''tu_1'')
                ''{"result": "Tool 'calculate_pension' called with args {}. Implementation needed."}''],
           world = \<lparr>prov = [], calls = 1\<rparr>,
           invoked = []\<rparr>)\<close>
    using iteration_requests[OF inv, of example_runtime TOOL_REGISTRY] t
    by (simp add: tool_use_requests r) (simp add: start_def)
  have p: "parse_args example_runtime (fc_arguments pension_call) = JObj []"
    by (simp add: parse_args_def pension_call_def loads_empty)
  have n: "fc_name pension_call = Some ''calculate_pension''"
    by (simp add: pension_call_def)
  have ne: "''calculate_pension'' \<noteq> []" by simp
  from function_call_runs_registered_tool[OF n ne registry_tools(1) p no_self pension_empty_call
      loads_pension]
  have re: "reached (resolve_function_call example_runtime TOOL_REGISTRY pension_call)
       = [(''calculate_pension'', [])]"
    by simp
  show ?thesis
    using registry_tools(1) it pension_call_output re by simp
qed

section \<open>The final answer\<close>

lemma json_dumps_object_nonempty: "json_dumps rt (JObj kvs) \<noteq> []"
  by simp

lemma final_answer_text:
  "answer_text response = Some t \<Longrightarrow> final_answer rt (parse_response response) = Inr t"
  by (auto simp: answer_text_def final_answer_def parse_response_def
      split: option.splits if_splits)

lemma final_answer_fallback:
  "answer_text response = None
   \<Longrightarrow> final_answer rt (parse_response response) = dumps_result rt (parse_response response)"
  by (auto simp: answer_text_def final_answer_def parse_response_def
      split: option.splits if_splits)

lemma run_loop_return:
  "fst (iteration rt reg key create tools model st) = Return s
   \<Longrightarrow> fst (run_loop rt reg key create tools model (Suc k) st) = Inr s"
  by (cases "iteration rt reg key create tools model st") auto

text \<open>
  Claim C4, amended. When the provider's response holds no tool request, the loop ends in
  that iteration, after that one provider call. If the response's text is a string with a
  character that is not whitespace, the loop returns that text. Otherwise, if the response
  holds no output items, the loop returns \<open>json.dumps\<close> of the structured result, which is not
  the empty string. (What happens otherwise when the response holds output items is not
  part of this statement.)
\<close>

theorem C4_final_answer:
  assumes "\<not> key_missing key"
    and "create (prov (world st)) (response_kwargs model (loop_input st) tools) = (Inr response, p')"
    and "\<not> requests_tool response"
  shows "(\<forall>t. answer_text response = Some t \<longrightarrow>
            fst (iteration rt reg key create tools model st) = Return t
          \<and> (\<forall>k. fst (run_loop rt reg key create tools model (Suc k) st) = Inr t))
       \<and> (\<forall>s. answer_text response = None \<and> resp_output response \<in> {None, Some []}
              \<and> s = json_dumps rt
                    (JObj [(''output_items'', JArr []), (''function_calls'', JArr []),
                           (''tool_uses'', JArr []),
                           (''output_text'',
                              case resp_output_text response of None \<Rightarrow> JNull | Some t \<Rightarrow> JStr t)])
            \<longrightarrow> s \<noteq> []
              \<and> fst (iteration rt reg key create tools model st) = Return s
              \<and> (\<forall>k. fst (run_loop rt reg key create tools model (Suc k) st) = Inr s))
       \<and> fst (iteration rt reg key create tools model st) \<noteq> Continue
       \<and> calls (world (snd (iteration rt reg key create tools model st))) = Suc (calls (world st))"
proof -
  let ?result = "parse_response response"
  let ?w = "\<lparr>prov = p', calls = Suc (calls (world st))\<rparr>"
  have inv: "invoke_openai key create (loop_input st) tools model (world st) = (Inr ?result, ?w)"
    using assms(1,2) by (rule invoke_openai_ok)
  from assms(3) have none: "function_calls ?result = []" "tool_uses ?result = []"
    by (simp_all add: requests_tool_def)
  note it = iteration_final[OF inv none, of rt reg]
  have a: "fst (iteration rt reg key create tools model st) = Return t
          \<and> (\<forall>k. fst (run_loop rt reg key create tools model (Suc k) st) = Inr t)"
    if "answer_text response = Some t" for t
    using it final_answer_text[OF that, of rt] by simp
  have b: "s \<noteq> [] \<and> fst (iteration rt reg key create tools model st) = Return s
          \<and> (\<forall>k. fst (run_loop rt reg key create tools model (Suc k) st) = Inr s)"
    if "answer_text response = None" and "resp_output response \<in> {None, Some []}"
      and "s = json_dumps rt
                    (JObj [(''output_items'', JArr []), (''function_calls'', JArr []),
                           (''tool_uses'', JArr []),
                           (''output_text'',
                              case resp_output_text response of None \<Rightarrow> JNull | Some t \<Rightarrow> JStr t)])"
    for s
  proof -
    from that(2) have "output_items ?result = []"
      by (auto simp: parse_response_def Let_def)
    moreover have "output_text ?result = resp_output_text response"
      by (simp add: parse_response_def Let_def)
    ultimately have "dumps_result rt ?result = Inr s"
      using none that(3) by (simp add: dumps_result_def)
    then have "final_answer rt ?result = Inr s"
      using final_answer_fallback[OF that(1), of rt] by simp
    with it that(3) show ?thesis by simp
  qed
  have c: "fst (iteration rt reg key create tools model st) \<noteq> Continue"
    using it by (simp split: sum.splits)
  have d: "calls (world (snd (iteration rt reg key create tools model st))) = Suc (calls (world st))"
    using it by simp
  from a b c d show ?thesis by blast
qed

text \<open>
  The claim as first stated promises the text whenever it is not empty. A response whose
  text is a single space is returned as the serialized result instead.
\<close>

theorem C4_blank_text_counterexample:
  \<open>resp_output_text blank_response = Some '' '' \<and> '' '' \<noteq> []
   \<and> requests_tool blank_response = False
   \<and> fst (invoke_openai_loop example_runtime TOOL_REGISTRY (Some ''sk-test'') scripted []
          None ''gpt-4'' 5 [blank_response])
       = Inr ''{"output_items": [], "function_calls": [], "tool_uses": [], "output_text": " "}''
   \<and> fst (invoke_openai_loop example_runtime TOOL_REGISTRY (Some ''sk-test'') scripted []
          None ''gpt-4'' 5 [blank_response])
       \<noteq> Inr '' ''\<close>
proof -
  let ?st = "start [] [blank_response]"
  have h: "scripted (prov (world ?st)) (response_kwargs ''gpt-4'' (loop_input ?st) None)
       = (Inr blank_response, [])"
    by (simp add: start_def)
  note inv = invoke_openai_ok[where create = scripted, OF key_present h]
  have none: "function_calls (parse_response blank_response) = []"
    "tool_uses (parse_response blank_response) = []"
    by (simp_all add: blank_response_def respond_def parse_response_def)
  have f: \<open>final_answer example_runtime (parse_response blank_response)
      = Inr ''{"output_items": [], "function_calls": [], "tool_uses": [], "output_text": " "}''\<close>
    by (simp add: final_answer_def dumps_result_def blank_response_def respond_def
        parse_response_def py_strip_def py_isspace_def json_quote_def json_escape_char_def Let_def)
  have it: \<open>fst (iteration example_runtime TOOL_REGISTRY (Some ''sk-test'') scripted None ''gpt-4'' ?st)
      = Return ''{"output_items": [], "function_calls": [], "tool_uses": [], "output_text": " "}''\<close>
    using iteration_final[OF inv none, of example_runtime TOOL_REGISTRY] f by simp
  have "invoke_openai_loop example_runtime TOOL_REGISTRY (Some ''sk-test'') scripted []
          None ''gpt-4'' 5 [blank_response]
      = run_loop example_runtime TOOL_REGISTRY (Some ''sk-test'') scripted None ''gpt-4'' (Suc 4) ?st"
    by (simp add: invoke_openai_loop_def key_present start_def)
  with run_loop_return[OF it, of 4]
  have loop: \<open>fst (invoke_openai_loop example_runtime TOOL_REGISTRY (Some ''sk-test'') scripted []
          None ''gpt-4'' 5 [blank_response])
       = Inr ''{"output_items": [], "function_calls": [], "tool_uses": [], "output_text": " "}''\<close>
    by simp
  have r: "requests_tool blank_response = False"
    by (simp add: requests_tool_def none)
  have t: "resp_output_text blank_response = Some '' ''"
    by (simp add: blank_response_def respond_def)
  show ?thesis
    using loop r t by simp
qed


lemma final_requests:
  "requests_tool final_response = False"
  "answer_text final_response = Some ''Your projected pension is ...''"
  by (simp_all add: requests_tool_def final_response_def respond_def parse_response_def
      item_function_calls_def item_tool_uses_def message_item_def answer_text_def
      py_strip_def py_isspace_def Let_def)

theorem C4_final_answer_witness:
  "\<not> key_missing (Some ''sk-test'')
   \<and> scripted (prov (world (start [] [final_response])))
        (response_kwargs ''gpt-4'' (loop_input (start [] [final_response])) None)
       = (Inr final_response, [])
   \<and> requests_tool final_response = False
   \<and> answer_text final_response = Some ''Your projected pension is ...''
   \<and> fst (run_loop example_runtime TOOL_REGISTRY (Some ''sk-test'') scripted None ''gpt-4''
          (Suc 4) (start [] [final_response]))
       = Inr ''Your projected pension is ...''
   \<and> calls (world (snd (iteration example_runtime TOOL_REGISTRY (Some ''sk-test'') scripted None
          ''gpt-4'' (start [] [final_response])))) = 1"
proof -
  have h: "scripted (prov (world (start [] [final_response])))
        (response_kwargs ''gpt-4'' (loop_input (start [] [final_response])) None)
       = (Inr final_response, [])"
    by (simp add: start_def)
  have r: "\<not> requests_tool final_response"
    by (simp add: final_requests)
  note c = C4_final_answer[where create = scripted and st = "start [] [final_response]"
      and rt = example_runtime and reg = TOOL_REGISTRY, OF key_present h r]
  have z: "calls (world (start [] [final_response])) = 0"
    by (simp add: start_def)
  from c final_requests(2)
  have 1: "fst (run_loop example_runtime TOOL_REGISTRY (Some ''sk-test'') scripted None ''gpt-4''
          (Suc 4) (start [] [final_response]))
       = Inr ''Your projected pension is ...''"
    by blast
  from c[THEN conjunct2, THEN conjunct2, THEN conjunct2] z
  have 2: "calls (world (snd (iteration example_runtime TOOL_REGISTRY (Some ''sk-test'') scripted
          None ''gpt-4'' (start [] [final_response])))) = 1"
    by simp
  show ?thesis
    using key_present h final_requests 1 2 by blast
qed


text \<open>
  The last resort itself fails when the response holds output items: they are SDK objects,
  and \<open>json.dumps\<close> raises TypeError at the first of them.
\<close>

lemma last_resort_refuses_output_items:
  assumes "\<not> key_missing key"
    and "create (prov (world st)) (response_kwargs model (loop_input st) tools) = (Inr response, p')"
    and "\<not> requests_tool response"
    and "answer_text response = None"
    and "resp_output response = Some (item # rest)"
  shows "fst (iteration rt reg key create tools model st)
           = Raise (Exn ''TypeError''
                     (''Object of type '' @ item_class item @ '' is not JSON serializable''))"
proof -
  let ?result = "parse_response response"
  have inv: "invoke_openai key create (loop_input st) tools model (world st)
      = (Inr ?result, \<lparr>prov = p', calls = Suc (calls (world st))\<rparr>)"
    using assms(1,2) by (rule invoke_openai_ok)
  from assms(3) have none: "function_calls ?result = []" "tool_uses ?result = []"
    by (simp_all add: requests_tool_def)
  have "output_items ?result = item # rest"
    by (simp add: parse_response_def Let_def assms(5))
  then have "final_answer rt ?result
      = Inl (Exn ''TypeError'' (''Object of type '' @ item_class item @ '' is not JSON serializable''))"
    using final_answer_fallback[OF assms(4), of rt] by (simp add: dumps_result_def)
  with iteration_final[OF inv none, of rt reg] show ?thesis by simp
qed

section \<open>The FSA/HSA calculator\<close>

text \<open>
  Claim C10 says that for every argument mapping the recommendations are nonnegative and
  capped, and that unusable expenses become 0 rather than an error. Two inputs escape the
  guardrails. Expenses that are NaN pass \<open>expenses < 0\<close> (false for NaN), \<open>min\<close> keeps the
  NaN and \<open>round\<close> returns it: the \<open>fsa\<close> recommendation is NaN, which is neither at least 0
  nor at most 3150.0. Expenses that are an int too large for a float make \<open>float\<close> raise
  OverflowError, which \<open>except (TypeError, ValueError)\<close> does not catch: the call raises.
\<close>

theorem C10_nan_and_overflow:
  "fsa_expenses rt nan_kwargs = Inr NaN
   \<and> recommendations_of (fsa_hsa_result rt nan_kwargs) = Some (JObj [(''fsa'', JFloat NaN)])
   \<and> num_le (PyInt 0) (PyFloat NaN) = False
   \<and> num_le (PyFloat NaN) (PyFloat FSA_CAP) = False
   \<and> fsa_hsa_call rt [(''expected_medical_expenses'', JInt huge_int)]
       = Inl (Exn ''OverflowError'' ''int too large to convert to float'')"
proof -
  have e: "fsa_expenses rt nan_kwargs = Inr NaN"
    by (simp add: fsa_expenses_def nan_kwargs_def kwargs_get_def py_float_def)
  have a: "py_lower (py_strip (py_str rt (kwargs_get nan_kwargs ''account_type'' (JStr [])))) = ''fsa''"
    by (simp add: nan_kwargs_def kwargs_get_def py_str_def py_strip_def py_isspace_def py_lower_def
        py_lower_char_def Let_def)
  have r: "fsa_recommend NaN ''fsa''
      = ([(''fsa'', PyFloat NaN)],
         [(''fsa'', ''Recommend ~80% of expected expenses up to the FSA cap to reduce forfeiture risk.'')])"
    by (simp add: fsa_recommend_def Let_def py_min_def num_lt_def target_ratio_def FSA_CAP_def)
  have 1: "recommendations_of (fsa_hsa_result rt nan_kwargs) = Some (JObj [(''fsa'', JFloat NaN)])"
    by (simp add: recommendations_of_def fsa_hsa_result_def e a r Let_def)
  have "(2::int) ^ 1024 - 2 ^ 970 \<le> \<bar>huge_int\<bar>"
    by (simp add: huge_int_def)
  then have 2: "fsa_hsa_call rt [(''expected_medical_expenses'', JInt huge_int)]
       = Inl (Exn ''OverflowError'' ''int too large to convert to float'')"
    by (simp add: fsa_hsa_call_def fsa_hsa_result_def fsa_expenses_def kwargs_get_def py_float_def)
  show ?thesis
    using e 1 2 by (simp add: num_le_def)
qed


text \<open>
  Away from those inputs the bounds hold: for finite expenses that are not negative, every
  recommendation lies between 0 and the cap of its account (with finite arithmetic taken as
  exact, as everywhere here).
\<close>

lemma round_half_even_range:
  assumes "0 \<le> r" and "r \<le> of_int n"
  shows "0 \<le> round_half_even r \<and> round_half_even r \<le> n"
proof -
  have f0: "0 \<le> \<lfloor>r\<rfloor>" using assms(1) by simp
  have fn: "\<lfloor>r\<rfloor> \<le> n" using assms(2) by (simp add: floor_le_iff)
  show ?thesis
  proof (cases "r = of_int \<lfloor>r\<rfloor>")
    case True
    then have "round_half_even r = \<lfloor>r\<rfloor>"
      by (simp add: round_half_even_def Let_def)
    with f0 fn show ?thesis by simp
  next
    case False
    with of_int_floor_le[of r] have "of_int \<lfloor>r\<rfloor> < r" by linarith
    with assms(2) have "of_int \<lfloor>r\<rfloor> < (of_int n :: rat)" by simp
    then have "\<lfloor>r\<rfloor> < n" by simp
    moreover have "round_half_even r = \<lfloor>r\<rfloor> \<or> round_half_even r = \<lfloor>r\<rfloor> + 1"
      by (simp add: round_half_even_def Let_def)
    ultimately show ?thesis using f0 by auto
  qed
qed

lemma round2_range:
  assumes "0 \<le> r" and "r \<le> of_int n"
  shows "num_le (PyInt 0) (py_round2 (PyFloat (Fin r)))
       \<and> num_le (py_round2 (PyFloat (Fin r))) (PyFloat (Fin (of_int n)))"
proof -
  have "0 \<le> r * 100" and "r * 100 \<le> of_int (n * 100)"
    using assms by simp_all
  from round_half_even_range[OF this]
  have "0 \<le> round_half_even (r * 100)" and "round_half_even (r * 100) \<le> n * 100"
    by simp_all
  then have "(0::rat) \<le> of_int (round_half_even (r * 100)) / 100"
    and "(of_int (round_half_even (r * 100)) :: rat) / 100 \<le> of_int n"
    by (simp_all add: pos_divide_le_eq of_int_le_iff[symmetric] del: of_int_le_iff)
  then show ?thesis
    by (simp add: num_le_def not_less)
qed

lemma min_cap_range:
  assumes "0 \<le> x" and "cap = Fin (of_int n)" and "0 \<le> n"
  shows "\<exists>r. py_min (PyFloat (Fin x)) (PyFloat cap) = PyFloat (Fin r) \<and> 0 \<le> r \<and> r \<le> of_int n"
  using assms by (auto simp: py_min_def num_lt_def)

lemma fsa_recommend_bounded:
  assumes "0 \<le> e"
    and "(k, v) \<in> set (fst (fsa_recommend (Fin e) account_type))"
  shows "num_le (PyInt 0) v
       \<and> num_le v (PyFloat (if k = ''fsa'' then FSA_CAP else HSA_CAP_INDIVIDUAL))"
proof -
  have c8: "0 \<le> e * (4 / 5)" and c5: "0 \<le> e * (1 / 2)" using assms(1) by simp_all
  consider (fsa) "account_type = ''fsa''" | (hsa) "account_type \<noteq> ''fsa''" "account_type = ''hsa''"
    | (both) "account_type \<noteq> ''fsa''" "account_type \<noteq> ''hsa''" "account_type = ''both''"
    | (other) "account_type \<noteq> ''fsa''" "account_type \<noteq> ''hsa''" "account_type \<noteq> ''both''"
    by blast
  then show ?thesis
  proof cases
    case fsa
    obtain r where r: "py_min (PyFloat (Fin (e * (4 / 5)))) (PyFloat FSA_CAP) = PyFloat (Fin r)"
      "0 \<le> r" "r \<le> of_int 3150"
      using min_cap_range[OF c8, of FSA_CAP 3150] by (auto simp: FSA_CAP_def)
    from assms(2) fsa r(1) have "k = ''fsa''" "v = py_round2 (PyFloat (Fin r))"
      by (simp_all add: fsa_recommend_def Let_def target_ratio_def)
    with round2_range[OF r(2,3)] show ?thesis by (simp add: FSA_CAP_def)
  next
    case hsa
    obtain r where r: "py_min (PyFloat (Fin (e * (4 / 5)))) (PyFloat HSA_CAP_INDIVIDUAL) = PyFloat (Fin r)"
      "0 \<le> r" "r \<le> of_int 4150"
      using min_cap_range[OF c8, of HSA_CAP_INDIVIDUAL 4150] by (auto simp: HSA_CAP_INDIVIDUAL_def)
    from assms(2) hsa r(1) have "k = ''hsa''" "v = py_round2 (PyFloat (Fin r))"
      by (simp_all add: fsa_recommend_def Let_def target_ratio_def)
    with round2_range[OF r(2,3)] show ?thesis by (simp add: HSA_CAP_INDIVIDUAL_def)
  next
    case both
    obtain h where h: "py_min (PyFloat (Fin (e * (1 / 2)))) (PyFloat HSA_CAP_INDIVIDUAL) = PyFloat (Fin h)"
      "0 \<le> h" "h \<le> of_int 4150"
      using min_cap_range[OF c5, of HSA_CAP_INDIVIDUAL 4150] by (auto simp: HSA_CAP_INDIVIDUAL_def)
    have hle: "h \<le> e * (1 / 2)"
      using h(1) by (auto simp: py_min_def num_lt_def HSA_CAP_INDIVIDUAL_def split: if_splits)
    then have d: "0 \<le> e * (4 / 5) - h" using assms(1) by simp
    then have rem: "py_max (PyFloat (fsub (fmul (Fin e) target_ratio) (to_float (PyFloat (Fin h)))))
        (PyInt 0) = PyFloat (Fin (e * (4 / 5) - h))"
      by (simp add: py_max_def num_lt_def target_ratio_def)
    obtain f where f: "py_min (PyFloat (Fin (e * (4 / 5) - h))) (PyFloat FSA_CAP) = PyFloat (Fin f)"
      "0 \<le> f" "f \<le> of_int 3150"
      using min_cap_range[OF d, of FSA_CAP 3150] by (auto simp: FSA_CAP_def)
    from assms(2) both
    have "(k = ''hsa'' \<and> v = py_round2 (PyFloat (Fin h)))
        \<or> (k = ''fsa'' \<and> v = py_round2 (PyFloat (Fin f)))"
      using h(1) rem f(1) by (auto simp: fsa_recommend_def Let_def)
    with round2_range[OF h(2,3)] round2_range[OF f(2,3)] show ?thesis
      by (auto simp: FSA_CAP_def HSA_CAP_INDIVIDUAL_def)
  next
    case other
    have m: "py_max (PyFloat FSA_CAP) (PyFloat HSA_CAP_INDIVIDUAL) = PyFloat HSA_CAP_INDIVIDUAL"
      by (simp add: py_max_def num_lt_def FSA_CAP_def HSA_CAP_INDIVIDUAL_def)
    obtain r where r: "py_min (PyFloat (Fin (e * (4 / 5)))) (PyFloat HSA_CAP_INDIVIDUAL) = PyFloat (Fin r)"
      "0 \<le> r" "r \<le> of_int 4150"
      using min_cap_range[OF c8, of HSA_CAP_INDIVIDUAL 4150] by (auto simp: HSA_CAP_INDIVIDUAL_def)
    from assms(2) other r(1) m have "k = ''suggested_contribution''" "v = py_round2 (PyFloat (Fin r))"
      by (simp_all add: fsa_recommend_def Let_def target_ratio_def)
    with round2_range[OF r(2,3)] show ?thesis by (simp add: HSA_CAP_INDIVIDUAL_def)
  qed
qed

section \<open>A whole run\<close>

lemma any_failure_becomes_payload:
  assumes "named_tool reg (fc_name fc) = Some tool_impl"
    and "run_tool rt tool_impl (parse_args rt (fc_arguments fc)) = Inl e"
  shows "result_payload (resolve_function_call rt reg fc)
           = error_payload e (parse_args rt (fc_arguments fc))"
  using assms by (simp add: resolve_function_call_def Let_def)

lemma pension_request_calls:
  "function_calls (parse_response pension_request) = [pension_call]"
  "tool_uses (parse_response pension_request) = []"
  "output_items (parse_response pension_request) = [call_item ''calculate_pension'' ''{}'' ''call_1'']"
  by (simp_all add: pension_request_def pension_call_def respond_def parse_response_def
      item_function_calls_def item_tool_uses_def call_item_def)

lemma final_response_parsed:
  "function_calls (parse_response final_response) = []"
  "tool_uses (parse_response final_response) = []"
  "output_items (parse_response final_response) = [message_item]"
  by (simp_all add: final_response_def respond_def parse_response_def
      item_function_calls_def item_tool_uses_def message_item_def)

lemma pension_call_reached:
  "reached (resolve_function_call example_runtime TOOL_REGISTRY pension_call)
     = [(''calculate_pension'', [])]"
proof -
  have n: "fc_name pension_call = Some ''calculate_pension''"
    by (simp add: pension_call_def)
  have ne: "''calculate_pension'' \<noteq> []" by simp
  have p: "parse_args example_runtime (fc_arguments pension_call) = JObj []"
    by (simp add: parse_args_def pension_call_def loads_empty)
  from function_call_runs_registered_tool[OF n ne registry_tools(1) p no_self pension_empty_call
      loads_pension]
  show ?thesis by simp
qed

text \<open>
  The scenario of the specification: the provider asks for \<open>calculate_pension\<close> at the first
  call and gives the final text at the second. The loop makes exactly two provider calls,
  runs the tool once and returns the text as it is.
\<close>

lemma scenario_two_calls:
  "invoke_openai_loop example_runtime TOOL_REGISTRY (Some ''sk-test'') scripted [] None ''gpt-4'' 5
       [pension_request, final_response]
     = (Inr ''Your projected pension is ...'',
        \<lparr>loop_input = [Emitted (call_item ''calculate_pension'' ''{}'' ''call_1''),
                       FunctionCallOutput (Some ''call_1'') pension_output,
                       Emitted message_item],
         world = \<lparr>prov = [], calls = 2\<rparr>,
         invoked = [(''calculate_pension'', [])]\<rparr>)"
proof -
  let ?run = "run_loop example_runtime TOOL_REGISTRY (Some ''sk-test'') scripted None ''gpt-4''"
  let ?it = "iteration example_runtime TOOL_REGISTRY (Some ''sk-test'') scripted None ''gpt-4''"
  let ?st0 = "start [] [pension_request, final_response]"
  let ?st1 = "\<lparr>loop_input = [Emitted (call_item ''calculate_pension'' ''{}'' ''call_1''),
                       FunctionCallOutput (Some ''call_1'') pension_output],
         world = \<lparr>prov = [final_response], calls = 1\<rparr>,
         invoked = [(''calculate_pension'', [])]\<rparr>"
  let ?st2 = "\<lparr>loop_input = [Emitted (call_item ''calculate_pension'' ''{}'' ''call_1''),
                       FunctionCallOutput (Some ''call_1'') pension_output,
                       Emitted message_item],
         world = \<lparr>prov = [], calls = 2\<rparr>,
         invoked = [(''calculate_pension'', [])]\<rparr>"
  have h0: "scripted (prov (world ?st0)) (response_kwargs ''gpt-4'' (loop_input ?st0) None)
       = (Inr pension_request, [final_response])"
    by (simp add: start_def)
  have i0: "?it ?st0 = (Continue, ?st1)"
    using iteration_requests[OF invoke_openai_ok[where create = scripted, OF key_present h0],
        of example_runtime TOOL_REGISTRY]
    by (simp add: pension_request_calls pension_call_output pension_call_reached start_def)
  have h1: "scripted (prov (world ?st1)) (response_kwargs ''gpt-4'' (loop_input ?st1) None)
       = (Inr final_response, [])"
    by simp
  have i1: "?it ?st1 = (Return ''Your projected pension is ...'', ?st2)"
    using iteration_final[OF invoke_openai_ok[where create = scripted, OF key_present h1],
        of example_runtime TOOL_REGISTRY]
      final_answer_text[OF final_requests(2), of example_runtime]
    by (simp add: final_response_parsed)
  have "?run (Suc (Suc 3)) ?st0 = (Inr ''Your projected pension is ...'', ?st2)"
    by (simp only: run_loop.simps i0 i1 prod.case step.case)
  moreover have "invoke_openai_loop example_runtime TOOL_REGISTRY (Some ''sk-test'') scripted []
       None ''gpt-4'' 5 [pension_request, final_response] = ?run (Suc (Suc 3)) ?st0"
    by (simp add: invoke_openai_loop_def key_present start_def eval_nat_numeral)
  ultimately show ?thesis by simp
qed

section \<open>Placeholders and malformed arguments in the loop\<close>

lemma iteration_of_requests:
  assumes "\<not> key_missing key"
    and "create (prov (world st)) (response_kwargs model (loop_input st) tools) = (Inr response, p')"
    and "requests_tool response"
  shows "iteration rt reg key create tools model st =
     (Continue,
      \<lparr>loop_input = loop_input st @ map Emitted (output_items (parse_response response))
          @ map (function_call_output rt reg) (function_calls (parse_response response))
          @ map (tool_result rt) (tool_uses (parse_response response)),
       world = \<lparr>prov = p', calls = Suc (calls (world st))\<rparr>,
       invoked = invoked st @ concat (map (\<lambda>fc. reached (resolve_function_call rt reg fc))
                                        (function_calls (parse_response response)))\<rparr>)"
proof -
  have inv: "invoke_openai key create (loop_input st) tools model (world st)
      = (Inr (parse_response response), \<lparr>prov = p', calls = Suc (calls (world st))\<rparr>)"
    using assms(1,2) by (rule invoke_openai_ok)
  from assms(3) have "function_calls (parse_response response) \<noteq> []
      \<or> tool_uses (parse_response response) \<noteq> []"
    by (simp add: requests_tool_def)
  from iteration_requests[OF inv this] show ?thesis .
qed

lemma tool_result_needed:
  "sublist ''Implementation needed'' (tr_content (tool_result rt tu))"
proof -
  have t: "tr_content (tool_result rt tu)
      = json_dumps rt (JObj [(''result'',
          JStr ((''Tool '' @ [CHR 0x27] @ str_opt (tu_name tu) @ [CHR 0x27]
                @ '' called with args '' @ py_str rt (tu_input tu))
                @ ''. Implementation needed.''))])"
    by (simp add: tool_result_def Let_def)
  show ?thesis
    unfolding t by (rule needed_in_payload)
qed

text \<open>
  Claim C7. Take an iteration whose response holds a function call with a missing, empty or
  unregistered name. The iteration raises nothing and continues; the result it appends to
  the transcript for that call is the placeholder \<open>{"result": "Function '<name>' called with
  args <raw>. Implementation needed."}\<close>, whose text holds "Implementation needed"; no tool
  is reached for the call (\<open>executed\<close> stays false, and the iteration's record of tool calls
  gains nothing from it). Every \<open>tool_use\<close> request of the response gets an appended
  placeholder holding the same words, whatever its name.
\<close>

theorem C7_placeholder:
  assumes "fc_name fc = None \<or> fc_name fc = Some []
           \<or> (\<exists>n. fc_name fc = Some n \<and> get_tool reg n = None)"
    and "\<not> key_missing key"
    and "create (prov (world st)) (response_kwargs model (loop_input st) tools) = (Inr response, p')"
    and "fc \<in> set (function_calls (parse_response response))"
  shows "fst (iteration rt reg key create tools model st) = Continue
       \<and> function_call_output rt reg fc
           \<in> set (loop_input (snd (iteration rt reg key create tools model st)))
       \<and> function_call_output rt reg fc
           = FunctionCallOutput (fc_call_id fc)
               (json_dumps rt (JObj [(''result'',
                  JStr (''Function '' @ [CHR 0x27] @ str_opt (fc_name fc) @ [CHR 0x27]
                        @ '' called with args '' @ py_str rt (fc_arguments fc)
                        @ ''. Implementation needed.''))]))
       \<and> sublist ''Implementation needed'' (fco_output (function_call_output rt reg fc))
       \<and> executed (resolve_function_call rt reg fc) = False
       \<and> reached (resolve_function_call rt reg fc) = []
       \<and> invoked (snd (iteration rt reg key create tools model st))
           = invoked st
             @ concat (map (\<lambda>c. reached (resolve_function_call rt reg c))
                         (removeAll fc (function_calls (parse_response response))))
       \<and> (\<forall>tu \<in> set (tool_uses (parse_response response)).
             tool_result rt tu \<in> set (loop_input (snd (iteration rt reg key create tools model st)))
           \<and> sublist ''Implementation needed'' (tr_content (tool_result rt tu)))"
proof -
  let ?fcs = "function_calls (parse_response response)"
  from assms(4) have "requests_tool response"
    by (auto simp: requests_tool_def)
  note it = iteration_of_requests[where create = create and st = st and rt = rt and reg = reg,
      OF assms(2,3) this]
  note pr = placeholder_resolution[OF assms(1), of rt]
  have r0: "reached (resolve_function_call rt reg fc) = []"
    using pr by blast
  have "concat (map (\<lambda>c. reached (resolve_function_call rt reg c)) fcs)
      = concat (map (\<lambda>c. reached (resolve_function_call rt reg c)) (removeAll fc fcs))" for fcs
    using r0 by (induction fcs) auto
  then have inv: "invoked (snd (iteration rt reg key create tools model st))
           = invoked st
             @ concat (map (\<lambda>c. reached (resolve_function_call rt reg c)) (removeAll fc ?fcs))"
    using it by simp
  have a: "fst (iteration rt reg key create tools model st) = Continue"
    and b: "function_call_output rt reg fc
           \<in> set (loop_input (snd (iteration rt reg key create tools model st)))"
    using it assms(4) by simp_all
  have c: "\<forall>tu \<in> set (tool_uses (parse_response response)).
             tool_result rt tu \<in> set (loop_input (snd (iteration rt reg key create tools model st)))
           \<and> sublist ''Implementation needed'' (tr_content (tool_result rt tu))"
    using it by (simp add: tool_result_needed)
  from a b c inv pr show ?thesis by blast
qed

lemma unknown_in_mixed:
  "unknown_call \<in> set (function_calls (parse_response mixed_response))"
  by (simp add: mixed_requests unknown_call_def)

theorem C7_placeholder_witness:
  \<open>(fc_name unknown_call = None \<or> fc_name unknown_call = Some []
      \<or> (\<exists>n. fc_name unknown_call = Some n \<and> get_tool TOOL_REGISTRY n = None))
   \<and> \<not> key_missing (Some ''sk-test'')
   \<and> scripted (prov (world (start [] [mixed_response])))
        (response_kwargs ''gpt-4'' (loop_input (start [] [mixed_response])) None)
       = (Inr mixed_response, [])
   \<and> unknown_call \<in> set (function_calls (parse_response mixed_response))
   \<and> fst (iteration example_runtime TOOL_REGISTRY (Some ''sk-test'') scripted None ''gpt-4''
          (start [] [mixed_response])) = Continue
   \<and> FunctionCallOutput (Some ''call_2'')
        ''{"result": "Function 'lookup_weather' called with args {invalid. Implementation needed."}''
       \<in> set (loop_input (snd (iteration example_runtime TOOL_REGISTRY (Some ''sk-test'') scripted
            None ''gpt-4'' (start [] [mixed_response]))))
   \<and> sublist ''Implementation needed''
        (fco_output (function_call_output example_runtime TOOL_REGISTRY unknown_call))
   \<and> reached (resolve_function_call example_runtime TOOL_REGISTRY unknown_call) = []
   \<and> tool_result example_runtime
        \<lparr>tu_id = Some ''tu_1'', tu_name = Some ''calculate_pension'', tu_input = JObj []\<rparr>
       \<in> set (loop_input (snd (iteration example_runtime TOOL_REGISTRY (Some ''sk-test'') scripted
            None ''gpt-4'' (start [] [mixed_response]))))\<close>
proof -
  have h: "fc_name unknown_call = None \<or> fc_name unknown_call = Some []
      \<or> (\<exists>n. fc_name unknown_call = Some n \<and> get_tool TOOL_REGISTRY n = None)"
    by (simp add: unknown_call_def registry_names)
  have s: "scripted (prov (world (start [] [mixed_response])))
        (response_kwargs ''gpt-4'' (loop_input (start [] [mixed_response])) None)
       = (Inr mixed_response, [])"
    by (simp add: start_def)
  note c = C7_placeholder[where create = scripted and st = "start [] [mixed_response]"
      and rt = example_runtime, OF h key_present s unknown_in_mixed]
  have 1: \<open>function_call_output example_runtime TOOL_REGISTRY unknown_call
       = FunctionCallOutput (Some ''call_2'')
           ''{"result": "Function 'lookup_weather' called with args {invalid. Implementation needed."}''\<close>
    using c[THEN conjunct2, THEN conjunct2, THEN conjunct1]
    by (simp add: unknown_call_def str_opt_def py_str_def json_quote_def json_escape_char_def Let_def)
  have 2: \<open>FunctionCallOutput (Some ''call_2'')
        ''{"result": "Function 'lookup_weather' called with args {invalid. Implementation needed."}''
       \<in> set (loop_input (snd (iteration example_runtime TOOL_REGISTRY (Some ''sk-test'') scripted
            None ''gpt-4'' (start [] [mixed_response]))))\<close>
    using c[THEN conjunct2, THEN conjunct1] unfolding 1 .
  from c have 3: "fst (iteration example_runtime TOOL_REGISTRY (Some ''sk-test'') scripted None
        ''gpt-4'' (start [] [mixed_response])) = Continue"
    and 4: "sublist ''Implementation needed''
        (fco_output (function_call_output example_runtime TOOL_REGISTRY unknown_call))"
    and 5: "reached (resolve_function_call example_runtime TOOL_REGISTRY unknown_call) = []"
    by blast+
  from c have "\<forall>tu \<in> set (tool_uses (parse_response mixed_response)).
      tool_result example_runtime tu
        \<in> set (loop_input (snd (iteration example_runtime TOOL_REGISTRY (Some ''sk-test'') scripted
            None ''gpt-4'' (start [] [mixed_response]))))"
    by blast
  then have 6: "tool_result example_runtime
        \<lparr>tu_id = Some ''tu_1'', tu_name = Some ''calculate_pension'', tu_input = JObj []\<rparr>
       \<in> set (loop_input (snd (iteration example_runtime TOOL_REGISTRY (Some ''sk-test'') scripted
            None ''gpt-4'' (start [] [mixed_response]))))"
    by (simp add: mixed_requests(2))
  show ?thesis
    using h key_present s unknown_in_mixed 2 3 4 5 6 by blast
qed

text \<open>
  Claim C6. Take an iteration whose response holds a function call with raw arguments that
  \<open>json.loads\<close> rejects, naming a registered tool. The iteration raises nothing and
  continues; the parsed arguments are the empty mapping; the tool is called with no keyword
  arguments (the call is in the iteration's record of tool calls); and the result appended
  to the transcript for the call carries what that call gave.
\<close>

theorem C6_malformed_arguments:
  assumes "fc_arguments fc = JStr raw"
    and "json_loads rt raw = Inl e"
    and "fc_name fc = Some n" and "n \<noteq> []"
    and "get_tool reg n = Some tool_impl"
    and "\<not> key_missing key"
    and "create (prov (world st)) (response_kwargs model (loop_input st) tools) = (Inr response, p')"
    and "fc \<in> set (function_calls (parse_response response))"
  shows "fst (iteration rt reg key create tools model st) = Continue
       \<and> parse_args rt (fc_arguments fc) = JObj []
       \<and> reached (resolve_function_call rt reg fc) = [(n, [])]
       \<and> (n, []) \<in> set (invoked (snd (iteration rt reg key create tools model st)))
       \<and> executed (resolve_function_call rt reg fc) = True
       \<and> result_payload (resolve_function_call rt reg fc)
           = (case tool_call tool_impl rt [] of
                Inl e' \<Rightarrow> error_payload e' (JObj [])
              | Inr output_str \<Rightarrow>
                  (case json_loads rt output_str of
                     Inl e' \<Rightarrow> error_payload e' (JObj [])
                   | Inr payload \<Rightarrow> payload))
       \<and> FunctionCallOutput (fc_call_id fc)
            (json_dumps rt (result_payload (resolve_function_call rt reg fc)))
           \<in> set (loop_input (snd (iteration rt reg key create tools model st)))"
proof -
  from assms(8) have "requests_tool response"
    by (auto simp: requests_tool_def)
  note it = iteration_of_requests[where create = create and st = st and rt = rt and reg = reg,
      OF assms(6,7) this]
  note mr = malformed_resolution[OF assms(1-5)]
  have a: "fst (iteration rt reg key create tools model st) = Continue"
    using it by simp
  have "function_call_output rt reg fc
      \<in> set (loop_input (snd (iteration rt reg key create tools model st)))"
    using it assms(8) by simp
  then have b: "FunctionCallOutput (fc_call_id fc)
            (json_dumps rt (result_payload (resolve_function_call rt reg fc)))
           \<in> set (loop_input (snd (iteration rt reg key create tools model st)))"
    by (simp add: function_call_output_def)
  have "reached (resolve_function_call rt reg fc) = [(n, [])]"
    using mr by blast
  then have c: "(n, []) \<in> set (invoked (snd (iteration rt reg key create tools model st)))"
    using it assms(8) by force
  from a b c mr show ?thesis by blast
qed

lemma malformed_requests:
  "function_calls (parse_response malformed_response) = [malformed_call]"
  by (simp add: malformed_response_def malformed_call_def respond_def parse_response_def
      item_function_calls_def call_item_def)

theorem C6_malformed_arguments_witness:
  "fc_arguments malformed_call = JStr ''{invalid''
   \<and> json_loads example_runtime ''{invalid''
       = Inl (Exn ''JSONDecodeError''
               ''Expecting property name enclosed in double quotes: line 1 column 2 (char 1)'')
   \<and> fc_name malformed_call = Some ''calculate_pension''
   \<and> get_tool TOOL_REGISTRY ''calculate_pension'' = Some calculate_pension_tool
   \<and> \<not> key_missing (Some ''sk-test'')
   \<and> scripted (prov (world (start [] [malformed_response])))
        (response_kwargs ''gpt-4'' (loop_input (start [] [malformed_response])) None)
       = (Inr malformed_response, [])
   \<and> malformed_call \<in> set (function_calls (parse_response malformed_response))
   \<and> fst (iteration example_runtime TOOL_REGISTRY (Some ''sk-test'') scripted None ''gpt-4''
          (start [] [malformed_response])) = Continue
   \<and> parse_args example_runtime (fc_arguments malformed_call) = JObj []
   \<and> (''calculate_pension'', [])
       \<in> set (invoked (snd (iteration example_runtime TOOL_REGISTRY (Some ''sk-test'') scripted
            None ''gpt-4'' (start [] [malformed_response]))))
   \<and> FunctionCallOutput (Some ''call_3'') pension_output
       \<in> set (loop_input (snd (iteration example_runtime TOOL_REGISTRY (Some ''sk-test'') scripted
            None ''gpt-4'' (start [] [malformed_response]))))"
proof -
  have a: "fc_arguments malformed_call = JStr ''{invalid''"
    and n: "fc_name malformed_call = Some ''calculate_pension''"
    and i: "fc_call_id malformed_call = Some ''call_3''"
    by (simp_all add: malformed_call_def)
  have ne: "''calculate_pension'' \<noteq> []" by simp
  have s: "scripted (prov (world (start [] [malformed_response])))
        (response_kwargs ''gpt-4'' (loop_input (start [] [malformed_response])) None)
       = (Inr malformed_response, [])"
    by (simp add: start_def)
  have m: "malformed_call \<in> set (function_calls (parse_response malformed_response))"
    by (simp add: malformed_requests)
  note c = C6_malformed_arguments[where create = scripted and st = "start [] [malformed_response]",
      OF a loads_invalid n ne registry_tools(1) key_present s m]
  from c have p: "result_payload (resolve_function_call example_runtime TOOL_REGISTRY malformed_call)
      = JObj [(''input'', JObj []),
              (''note'', JStr ''Stub calculate_pension implementation. Replace with real logic.'')]"
    by (simp add: pension_empty_call loads_pension)
  have d: "json_dumps example_runtime
      (JObj [(''input'', JObj []),
             (''note'', JStr ''Stub calculate_pension implementation. Replace with real logic.'')])
      = pension_output"
    by (simp add: pension_output_def json_quote_def json_escape_char_def Let_def)
  from c have "FunctionCallOutput (fc_call_id malformed_call)
            (json_dumps example_runtime
               (result_payload (resolve_function_call example_runtime TOOL_REGISTRY malformed_call)))
           \<in> set (loop_input (snd (iteration example_runtime TOOL_REGISTRY (Some ''sk-test'')
                  scripted None ''gpt-4'' (start [] [malformed_response]))))"
    by blast
  then have o: "FunctionCallOutput (Some ''call_3'') pension_output
       \<in> set (loop_input (snd (iteration example_runtime TOOL_REGISTRY (Some ''sk-test'') scripted
            None ''gpt-4'' (start [] [malformed_response]))))"
    by (simp only: i p d)
  from c have 1: "fst (iteration example_runtime TOOL_REGISTRY (Some ''sk-test'') scripted None
        ''gpt-4'' (start [] [malformed_response])) = Continue"
    and 2: "parse_args example_runtime (fc_arguments malformed_call) = JObj []"
    and 3: "(''calculate_pension'', [])
       \<in> set (invoked (snd (iteration example_runtime TOOL_REGISTRY (Some ''sk-test'') scripted
            None ''gpt-4'' (start [] [malformed_response]))))"
    by blast+
  show ?thesis
    using a loads_invalid n registry_tools(1) key_present s m 1 2 3 o by blast
qed

end
